theory Spec2Isabelle
  imports Main
begin

section \<open>Time and durations\<close>

text \<open>
  A Go \<^verbatim>\<open>time.Time\<close> is modelled as the number of nanoseconds since the zero
  \<^verbatim>\<open>time.Time{}\<close>, so the zero value is \<open>0\<close>. A \<^verbatim>\<open>time.Duration\<close> is an
  \<^verbatim>\<open>int64\<close> count of nanoseconds: \<open>int64\<close> writes the two's-complement wrap-around
  of Go's arithmetic out. \<^verbatim>\<open>Time.Sub\<close> saturates at the largest and the smallest
  duration, and \<^verbatim>\<open>time.Since(t)\<close> is \<^verbatim>\<open>time.Now().Sub(t)\<close>; the reading of the
  clock is an argument of the model. The wall clock and the monotonic clock of Go are
  one clock here.
\<close>

type_synonym time = int
type_synonym duration = int

definition int64 :: "int \<Rightarrow> int" where
  "int64 x = signed_take_bit 63 x"

definition maxDuration :: duration where
  "maxDuration = 9223372036854775807"

definition minDuration :: duration where
  "minDuration = - 9223372036854775808"

definition Second :: duration where
  "Second = 1000000000"

definition Minute :: duration where
  "Minute = 60000000000"

definition time_Sub :: "time \<Rightarrow> time \<Rightarrow> duration" where
  "time_Sub t u =
     (if t - u > maxDuration then maxDuration
      else if t - u < minDuration then minDuration
      else t - u)"

definition time_Since :: "time \<Rightarrow> time \<Rightarrow> duration" where
  "time_Since now t = time_Sub now t"

section \<open>Configuration, device state and the event log\<close>

text \<open>
  The fields of \<^verbatim>\<open>config.Config\<close> that the monitoring code reads. The fields of
  \<^verbatim>\<open>DeviceConfig\<close> carry the prefix \<open>cfg\<close> and those of \<^verbatim>\<open>WirelessClient\<close> the
  prefix \<open>cl\<close> where the name is also a field of \<^verbatim>\<open>DeviceState\<close>.
\<close>

record DeviceConfig =
  cfgMAC :: string
  cfgName :: string
  Enabled :: bool

record UniFiConfig =
  SiteID :: string
  GateAPMAC :: string
  PollInterval :: int

record ShellyConfig =
  TriggerURL :: string

record GateConfig =
  OpenDuration :: int
  LogActivity :: bool

record Config =
  UniFi :: UniFiConfig
  Shelly :: ShellyConfig
  Gate :: GateConfig
  Devices :: "DeviceConfig list"

record DeviceState =
  MAC :: string
  Name :: string
  CurrentAP :: string
  PreviousAP :: string
  LastSeen :: time
  IsConnected :: bool
  LastGateTrigger :: time

record WirelessClient =
  clMAC :: string
  AP_MAC :: string
  Uptime :: int

text \<open>The columns that \<^verbatim>\<open>DB.LogEvent\<close> inserts from a \<^verbatim>\<open>database.LogEntry\<close>.\<close>

record LogEntry =
  DeviceMAC :: string
  DeviceName :: string
  Event :: string
  Direction :: string
  FromAP :: string
  ToAP :: string
  GateOpened :: bool
  Message :: string

definition directionArriving :: string where
  "directionArriving = ''arriving''"

definition directionLeaving :: string where
  "directionLeaving = ''leaving''"

definition directionUnknown :: string where
  "directionUnknown = ''unknown''"

section \<open>Effects\<close>

text \<open>
  Every call that the code makes to a collaborator is an entry of a trace, in the order
  of the calls: the logrus logger (format string and arguments), the database, the gate
  controller with its HTTP request, and the login of the UniFi client. What a
  collaborator answers is an argument of the model.
\<close>

datatype arg = S string | I int | D duration

datatype effect =
    Logger_Infof string "arg list"
  | Logger_Errorf string "arg list"
  | DB_LogEvent LogEntry
  | DB_UpdateDeviceState string string bool
  | DB_UpdateLastGateTrigger string
  | GateController_OpenGate
  | HTTP_Get string
  | UniFiClient_Login

section \<open>The gate controller\<close>

datatype http_result = Get_failed string | Get_response int

datatype gate_error = NotConfigured | RequestFailed string | BadStatus int

text \<open>\<^verbatim>\<open>%d\<close> of a number, for the text of an error.\<close>

fun showNat :: "nat \<Rightarrow> string" where
  "showNat n =
     (if n < 10 then [char_of (48 + n)]
      else showNat (n div 10) @ [char_of (48 + n mod 10)])"

declare showNat.simps [simp del]

definition showInt :: "int \<Rightarrow> string" where
  "showInt i = (if i < 0 then CHR ''-'' # showNat (nat (- i)) else showNat (nat i))"

fun gate_Error :: "gate_error \<Rightarrow> string" where
  "gate_Error NotConfigured = ''gate trigger URL not configured''"
| "gate_Error (RequestFailed e) = ''failed to trigger gate: '' @ e"
| "gate_Error (BadStatus code) = ''gate trigger returned status '' @ showInt code"

text \<open>
  \<^verbatim>\<open>Controller.OpenGate\<close>: \<open>None\<close> is the \<^verbatim>\<open>nil\<close> error. The second argument is
  what \<^verbatim>\<open>c.client.Get\<close> returns when it is called.
\<close>

definition OpenGate :: "string \<Rightarrow> http_result \<Rightarrow> gate_error option \<times> effect list" where
  "OpenGate triggerURL get =
     (if triggerURL = [] then (Some NotConfigured, [])
      else
        (let pre = [Logger_Infof ''Triggering gate open via: %s'' [S triggerURL],
                    HTTP_Get triggerURL]
         in case get of
              Get_failed e \<Rightarrow> (Some (RequestFailed e), pre)
            | Get_response StatusCode \<Rightarrow>
                if StatusCode \<noteq> 200 then (Some (BadStatus StatusCode), pre)
                else (None, pre @ [Logger_Infof ''Gate opened successfully'' []])))"

record Controller =
  triggerURL :: string

section \<open>What the environment answers while one device is processed\<close>

text \<open>
  One record holds the readings of the clock and the results of the collaborators in the
  order in which the code asks for them while it handles one device in one poll.
\<close>

record env =
  event_logEvent_err :: "string option"
    \<comment> \<open>result of \<^verbatim>\<open>DB.LogEvent\<close> in the connect, roam and disconnect handlers\<close>
  now_check :: time
    \<comment> \<open>the clock at \<^verbatim>\<open>time.Since\<close> in the cooldown test\<close>
  now_remaining :: time
    \<comment> \<open>the clock at \<^verbatim>\<open>time.Since\<close> in the argument of the "skipping" line\<close>
  http_get :: http_result
    \<comment> \<open>result of the HTTP request of \<^verbatim>\<open>OpenGate\<close>\<close>
  now_trigger :: time
    \<comment> \<open>the clock at \<^verbatim>\<open>state.LastGateTrigger = time.Now()\<close>\<close>
  updateLastGateTrigger_err :: "string option"
  gate_logEvent_err :: "string option"
    \<comment> \<open>result of \<^verbatim>\<open>DB.LogEvent\<close> in \<^verbatim>\<open>checkAndOpenGate\<close>\<close>
  now_seen :: time
    \<comment> \<open>the clock at \<^verbatim>\<open>state.LastSeen = time.Now()\<close>\<close>
  updateDeviceState_err :: "string option"

text \<open>
  The pattern \<^verbatim>\<open>if app.Config.Gate.LogActivity { if err := app.DB.LogEvent(...); err != nil
  { app.Logger.Errorf(...) } }\<close> that every handler uses.
\<close>

definition logEvent :: "Config \<Rightarrow> LogEntry \<Rightarrow> string option \<Rightarrow> effect list" where
  "logEvent cfg entry err =
     (if LogActivity (Gate cfg) then
        DB_LogEvent entry #
        (case err of
           None \<Rightarrow> []
         | Some e \<Rightarrow> [Logger_Errorf ''Failed to log event for %s: %v'' [S (DeviceMAC entry), S e]])
      else [])"

section \<open>The gate trigger controller\<close>

definition cooldownDuration :: "Config \<Rightarrow> duration" where
  "cooldownDuration cfg = int64 (OpenDuration (Gate cfg) * Minute)"

definition checkAndOpenGate ::
  "Config \<Rightarrow> Controller \<Rightarrow> env \<Rightarrow> DeviceState \<Rightarrow> string \<Rightarrow> DeviceState \<times> effect list" where
  "checkAndOpenGate cfg gc e state direction =
     (if time_Since (now_check e) (LastGateTrigger state) < cooldownDuration cfg then
        (state,
         Logger_Infof ''Gate recently opened for %s, skipping (cooldown: %v remaining)''
           [S (Name state),
            D (int64 (cooldownDuration cfg - time_Since (now_remaining e) (LastGateTrigger state)))] #
         logEvent cfg
           \<lparr>DeviceMAC = MAC state, DeviceName = Name state, Event = ''gate_skipped'',
            Direction = direction, FromAP = [], ToAP = [], GateOpened = False,
            Message = ''Gate recently opened, cooldown active''\<rparr>
           (gate_logEvent_err e))
      else
        (let opening = [Logger_Infof ''Opening gate for %s (%s)'' [S (Name state), S direction],
                        GateController_OpenGate]
         in case OpenGate (triggerURL gc) (http_get e) of
              (Some err, called) \<Rightarrow>
                (state,
                 opening @ called @
                 Logger_Errorf ''Failed to open gate: %v'' [S (gate_Error err)] #
                 logEvent cfg
                   \<lparr>DeviceMAC = MAC state, DeviceName = Name state, Event = ''gate_error'',
                    Direction = direction, FromAP = [], ToAP = [], GateOpened = False,
                    Message = gate_Error err\<rparr>
                   (gate_logEvent_err e))
            | (None, called) \<Rightarrow>
                (state\<lparr>LastGateTrigger := now_trigger e\<rparr>,
                 opening @ called @
                 DB_UpdateLastGateTrigger (MAC state) #
                 (case updateLastGateTrigger_err e of
                    None \<Rightarrow> []
                  | Some u \<Rightarrow>
                      [Logger_Errorf ''Failed to update last gate trigger for %s: %v''
                         [S (MAC state), S u]]) @
                 logEvent cfg
                   \<lparr>DeviceMAC = MAC state, DeviceName = Name state, Event = ''gate_triggered'',
                    Direction = direction, FromAP = [], ToAP = [], GateOpened = True,
                    Message = ''Gate opened successfully''\<rparr>
                   (gate_logEvent_err e))))"

section \<open>The handlers of the three transitions\<close>

text \<open>
  What a handler writes before it turns to the gate: its line in the logger and, when
  activity logging is on, its entry in the event log.
\<close>

definition connectedLog ::
  "Config \<Rightarrow> env \<Rightarrow> DeviceState \<Rightarrow> string \<Rightarrow> string \<Rightarrow> string \<Rightarrow> effect list" where
  "connectedLog cfg e state toAP fromAP direction =
     Logger_Infof ''Device %s (%s) connected to AP %s'' [S (Name state), S (MAC state), S toAP] #
     logEvent cfg
       \<lparr>DeviceMAC = MAC state, DeviceName = Name state, Event = ''connected'',
        Direction = direction, FromAP = fromAP, ToAP = toAP, GateOpened = False,
        Message = ''Device connected to network''\<rparr>
       (event_logEvent_err e)"

definition handleDeviceConnected ::
  "Config \<Rightarrow> Controller \<Rightarrow> env \<Rightarrow> DeviceState \<Rightarrow> string \<Rightarrow> string \<Rightarrow> DeviceState \<times> effect list" where
  "handleDeviceConnected cfg gc e state toAP fromAP =
     (let direction =
            (if toAP = GateAPMAC (UniFi cfg) then directionArriving else directionUnknown);
          events = connectedLog cfg e state toAP fromAP direction
      in if toAP = GateAPMAC (UniFi cfg) then
           (case checkAndOpenGate cfg gc e state direction of
              (state', gate) \<Rightarrow> (state', events @ gate))
         else (state, events))"

text \<open>The direction that \<^verbatim>\<open>handleDeviceRoamed\<close> works out first.\<close>

definition roamDirection :: "Config \<Rightarrow> string \<Rightarrow> string \<Rightarrow> string" where
  "roamDirection cfg fromAP toAP =
     (if toAP = GateAPMAC (UniFi cfg) then
        (if fromAP \<noteq> [] then directionLeaving else directionArriving)
      else if fromAP = GateAPMAC (UniFi cfg) then directionArriving
      else directionUnknown)"

definition roamedLog ::
  "Config \<Rightarrow> env \<Rightarrow> DeviceState \<Rightarrow> string \<Rightarrow> string \<Rightarrow> string \<Rightarrow> effect list" where
  "roamedLog cfg e state fromAP toAP direction =
     Logger_Infof ''Device %s (%s) roamed from AP %s to AP %s (direction: %s)''
       [S (Name state), S (MAC state), S fromAP, S toAP, S direction] #
     logEvent cfg
       \<lparr>DeviceMAC = MAC state, DeviceName = Name state, Event = ''roamed'',
        Direction = direction, FromAP = fromAP, ToAP = toAP, GateOpened = False,
        Message = ''Device roamed between access points''\<rparr>
       (event_logEvent_err e)"

definition handleDeviceRoamed ::
  "Config \<Rightarrow> Controller \<Rightarrow> env \<Rightarrow> DeviceState \<Rightarrow> string \<Rightarrow> string \<Rightarrow> DeviceState \<times> effect list" where
  "handleDeviceRoamed cfg gc e state fromAP toAP =
     (let direction = roamDirection cfg fromAP toAP;
          events = roamedLog cfg e state fromAP toAP direction
      in if toAP = GateAPMAC (UniFi cfg) \<or> fromAP = GateAPMAC (UniFi cfg) then
           (case checkAndOpenGate cfg gc e state direction of
              (state', gate) \<Rightarrow> (state', events @ gate))
         else (state, events))"

definition handleDeviceDisconnected :: "Config \<Rightarrow> env \<Rightarrow> DeviceState \<Rightarrow> effect list" where
  "handleDeviceDisconnected cfg e state =
     Logger_Infof ''Device %s (%s) disconnected from AP %s''
       [S (Name state), S (MAC state), S (CurrentAP state)] #
     logEvent cfg
       \<lparr>DeviceMAC = MAC state, DeviceName = Name state, Event = ''disconnected'',
        Direction = [], FromAP = CurrentAP state, ToAP = [], GateOpened = False,
        Message = ''Device disconnected from network''\<rparr>
       (event_logEvent_err e)"

section \<open>One poll\<close>

text \<open>
  \<^verbatim>\<open>strings.ToUpper\<close> and \<^verbatim>\<open>strings.ToLower\<close> on the ASCII letters; every other byte
  is kept. (Go also maps letters outside ASCII; hardware addresses have none.)
\<close>

definition upperChar :: "char \<Rightarrow> char" where
  "upperChar c =
     (let n = (of_char c :: nat) in if 97 \<le> n \<and> n \<le> 122 then char_of (n - 32) else c)"

definition lowerChar :: "char \<Rightarrow> char" where
  "lowerChar c =
     (let n = (of_char c :: nat) in if 65 \<le> n \<and> n \<le> 90 then char_of (n + 32) else c)"

definition ToUpper :: "string \<Rightarrow> string" where
  "ToUpper s = map upperChar s"

definition ToLower :: "string \<Rightarrow> string" where
  "ToLower s = map lowerChar s"

text \<open>
  The map \<^verbatim>\<open>currentlyConnected\<close> that \<^verbatim>\<open>pollUniFi\<close> builds from the clients of the
  snapshot: a later client replaces an earlier one with the same normalized address.
\<close>

definition currentlyConnected :: "WirelessClient list \<Rightarrow> (string \<rightharpoonup> WirelessClient)" where
  "currentlyConnected clients =
     fold (\<lambda>client m. m(ToUpper (clMAC client) \<mapsto> client)) clients Map.empty"

definition updateDeviceState :: "env \<Rightarrow> string \<Rightarrow> string \<Rightarrow> bool \<Rightarrow> effect list" where
  "updateDeviceState e mac ap connected =
     DB_UpdateDeviceState mac ap connected #
     (case updateDeviceState_err e of
        None \<Rightarrow> []
      | Some u \<Rightarrow> [Logger_Errorf ''Failed to update device state for %s: %v'' [S mac, S u]])"

text \<open>
  The body of the loop \<^verbatim>\<open>for mac, state := range app.deviceStates\<close> of \<^verbatim>\<open>pollUniFi\<close>,
  for the entry \<open>state\<close> under the key \<open>mac\<close>; \<open>found\<close> is
  \<^verbatim>\<open>currentlyConnected[mac]\<close>.
\<close>

definition pollDevice ::
  "Config \<Rightarrow> Controller \<Rightarrow> env \<Rightarrow> WirelessClient option \<Rightarrow> string \<Rightarrow> DeviceState \<Rightarrow>
   DeviceState \<times> effect list" where
  "pollDevice cfg gc e found mac state =
     (case found of
        Some client \<Rightarrow>
          (let newAP = AP_MAC client in
           case
             (if \<not> IsConnected state then
                (if newAP = GateAPMAC (UniFi cfg) \<and> Uptime client < 30 then
                   (case handleDeviceConnected cfg gc e state newAP ''nowhere'' of
                      (state', fired) \<Rightarrow>
                        (state',
                         Logger_Infof ''Device %s newly arrived at gate (uptime: %ds)''
                           [S (Name state), I (Uptime client)] # fired))
                 else if newAP \<noteq> GateAPMAC (UniFi cfg) then
                   handleDeviceConnected cfg gc e state newAP ''nowhere''
                 else
                   (state,
                    [Logger_Infof ''Device %s already at gate (uptime: %ds), not triggering''
                       [S (Name state), I (Uptime client)]]))
              else if CurrentAP state \<noteq> newAP then
                handleDeviceRoamed cfg gc e state (CurrentAP state) newAP
              else (state, []))
           of (state', fired) \<Rightarrow>
             (state'\<lparr>CurrentAP := newAP, IsConnected := True, LastSeen := now_seen e\<rparr>,
              fired @ updateDeviceState e mac newAP True))
      | None \<Rightarrow>
          (if IsConnected state then
             (state\<lparr>PreviousAP := CurrentAP state, CurrentAP := [], IsConnected := False\<rparr>,
              handleDeviceDisconnected cfg e state @ updateDeviceState e mac [] False)
           else (state, [])))"

text \<open>
  The loop over the registry. Go iterates a map in no fixed order, and an iteration reads
  and writes only its own entry, so the loop is the body applied to every entry; each
  device has its own trace and its own answers of the environment.
\<close>

definition pollDevices ::
  "Config \<Rightarrow> Controller \<Rightarrow> (string \<Rightarrow> env) \<Rightarrow> WirelessClient list \<Rightarrow>
   (string \<rightharpoonup> DeviceState) \<Rightarrow> (string \<rightharpoonup> DeviceState)" where
  "pollDevices cfg gc es clients states =
     (\<lambda>mac. map_option
        (\<lambda>state. fst (pollDevice cfg gc (es mac) (currentlyConnected clients mac) mac state))
        (states mac))"

definition pollTraces ::
  "Config \<Rightarrow> Controller \<Rightarrow> (string \<Rightarrow> env) \<Rightarrow> WirelessClient list \<Rightarrow>
   (string \<rightharpoonup> DeviceState) \<Rightarrow> string \<Rightarrow> effect list" where
  "pollTraces cfg gc es clients states =
     (\<lambda>mac. case states mac of
        None \<Rightarrow> []
      | Some state \<Rightarrow> snd (pollDevice cfg gc (es mac) (currentlyConnected clients mac) mac state))"

section \<open>The application state\<close>

text \<open>
  The fields of \<^verbatim>\<open>App\<close> that the monitoring code and the device handlers read and
  write. \<open>UniFiClient\<close> says whether the pointer of that name is set. The registry
  \<^verbatim>\<open>map[string]*DeviceState\<close> holds a pointer of its own for every key (each entry is
  stored as a fresh \<^verbatim>\<open>&DeviceState{...}\<close>), so it is a map to the records.
\<close>

record App =
  Config :: Config
  UniFiClient :: bool
  GateController :: Controller
  isMonitoring :: bool
  deviceStates :: "string \<rightharpoonup> DeviceState"
  authRetryCount :: int
  lastAuthAttempt :: time
  authRetryBackoff :: duration

section \<open>Re-authentication with backoff\<close>

record auth_env =
  now_backoff :: time
    \<comment> \<open>the clock at \<^verbatim>\<open>time.Since\<close> in the backoff test\<close>
  now_wait :: time
    \<comment> \<open>the clock at \<^verbatim>\<open>time.Since\<close> in the text of the backoff error\<close>
  now_attempt :: time
    \<comment> \<open>the clock at \<^verbatim>\<open>app.lastAuthAttempt = time.Now()\<close>\<close>
  login :: "string option"
    \<comment> \<open>the error of \<^verbatim>\<open>UniFiClient.Login\<close>, \<open>None\<close> for \<^verbatim>\<open>nil\<close>\<close>

datatype auth_error = BackoffInEffect duration | LoginFailed string

text \<open>
  \<^verbatim>\<open>uint(x)\<close> of an \<^verbatim>\<open>int\<close>, and \<^verbatim>\<open>x << k\<close> on an \<^verbatim>\<open>int64\<close>: a shift by 64 or more
  gives 0.
\<close>

definition uint :: "int \<Rightarrow> nat" where
  "uint x = nat (x mod 18446744073709551616)"

definition shiftLeft :: "int \<Rightarrow> nat \<Rightarrow> int" where
  "shiftLeft x k = (if 64 \<le> k then 0 else int64 (x * 2 ^ k))"

text \<open>
  The backoff after the failure that brought the retry count to \<open>count\<close>:
  \<^verbatim>\<open>time.Duration(1<<uint(count-1)) * time.Second\<close>, cut at 64 seconds when it is
  larger.
\<close>

definition nextBackoff :: "int \<Rightarrow> duration" where
  "nextBackoff count =
     (let backoff = int64 (shiftLeft 1 (uint (int64 (count - 1))) * Second)
      in if backoff > int64 (64 * Second) then int64 (64 * Second) else backoff)"

definition reauthenticateWithBackoff ::
  "App \<Rightarrow> auth_env \<Rightarrow> auth_error option \<times> App \<times> effect list" where
  "reauthenticateWithBackoff app e =
     (if time_Since (now_backoff e) (lastAuthAttempt app) < authRetryBackoff app then
        (Some (BackoffInEffect
           (int64 (authRetryBackoff app - time_Since (now_wait e) (lastAuthAttempt app)))),
         app, [])
      else
        (let app1 = app\<lparr>lastAuthAttempt := now_attempt e\<rparr>;
             attempt =
               [Logger_Infof
                  ''Attempting to re-authenticate with UniFi controller (attempt #%d)''
                  [I (int64 (authRetryCount app1 + 1))],
                UniFiClient_Login]
         in case login e of
              Some err \<Rightarrow>
                (let count = int64 (authRetryCount app1 + 1);
                     backoff = nextBackoff count
                 in (Some (LoginFailed err),
                     app1\<lparr>authRetryCount := count, authRetryBackoff := backoff\<rparr>,
                     attempt @
                     [Logger_Errorf ''Re-authentication failed (attempt #%d): %v. Next retry in %v''
                        [I count, S err, D backoff]]))
            | None \<Rightarrow>
                (None,
                 app1\<lparr>authRetryCount := 0, authRetryBackoff := 0\<rparr>,
                 attempt @ [Logger_Infof ''Successfully re-authenticated with UniFi controller'' []])))"

text \<open>\<^verbatim>\<open>strings.Contains\<close>, and \<^verbatim>\<open>isAuthError\<close> on the text of a non-nil error.\<close>

fun HasPrefix :: "string \<Rightarrow> string \<Rightarrow> bool" where
  "HasPrefix s [] = True"
| "HasPrefix [] (p # ps) = False"
| "HasPrefix (c # s) (p # ps) = (c = p \<and> HasPrefix s ps)"

fun Contains :: "string \<Rightarrow> string \<Rightarrow> bool" where
  "Contains [] substr = (substr = [])"
| "Contains (c # s) substr = (HasPrefix (c # s) substr \<or> Contains s substr)"

definition isAuthError :: "string \<Rightarrow> bool" where
  "isAuthError err =
     (let errStr = ToLower err
      in Contains errStr ''401'' \<or> Contains errStr ''unauthorized'' \<or>
         Contains errStr ''not logged in'' \<or> Contains errStr ''authentication'' \<or>
         Contains errStr ''invalid token'')"

section \<open>The poll cycle\<close>

record poll_env =
  fetch :: "string + WirelessClient list"
    \<comment> \<open>result of the first \<^verbatim>\<open>GetActiveClients\<close>, \<open>Inl\<close> the text of the error\<close>
  auth :: auth_env
  fetch_again :: "string + WirelessClient list"
    \<comment> \<open>result of \<^verbatim>\<open>GetActiveClients\<close> after a re-authentication\<close>
  devices :: "string \<Rightarrow> env"
    \<comment> \<open>the answers while the device under each key is processed\<close>

text \<open>
  \<^verbatim>\<open>pollUniFi\<close>: the new state, the trace up to the loop, and the trace of every device
  in the loop. \<open>diffDevices\<close> is its second half, from the map of the connected
  clients on, for the clients that a fetch has returned and the trace so far.
\<close>

definition diffDevices ::
  "App \<Rightarrow> poll_env \<Rightarrow> WirelessClient list \<Rightarrow> effect list \<Rightarrow>
   App \<times> effect list \<times> (string \<Rightarrow> effect list)" where
  "diffDevices app pe clients before =
     (app\<lparr>deviceStates :=
            pollDevices (Config app) (GateController app) (devices pe) clients (deviceStates app)\<rparr>,
      before,
      pollTraces (Config app) (GateController app) (devices pe) clients (deviceStates app))"

definition pollUniFi :: "App \<Rightarrow> poll_env \<Rightarrow> App \<times> effect list \<times> (string \<Rightarrow> effect list)" where
  "pollUniFi app pe =
     (if \<not> UniFiClient app then
        (app, [Logger_Errorf ''UniFi client not initialized'' []], \<lambda>mac. [])
      else
        (case fetch pe of
           Inr clients \<Rightarrow> diffDevices app pe clients []
         | Inl err \<Rightarrow>
             (let failed = [Logger_Errorf ''Failed to get active clients: %v'' [S err]]
              in if isAuthError err then
                   (case reauthenticateWithBackoff app (auth pe) of
                      (Some reauthErr, app1, tried) \<Rightarrow> (app1, failed @ tried, \<lambda>mac. [])
                    | (None, app1, tried) \<Rightarrow>
                        (case fetch_again pe of
                           Inl err2 \<Rightarrow>
                             (app1,
                              failed @ tried @
                              [Logger_Errorf
                                 ''Failed to get active clients after re-authentication: %v''
                                 [S err2]],
                              \<lambda>mac. [])
                         | Inr clients \<Rightarrow> diffDevices app1 pe clients (failed @ tried)))
                 else (app, failed, \<lambda>mac. []))))"

section \<open>Seeding the registry\<close>

text \<open>
  What the database answers at the start of monitoring: \<^verbatim>\<open>GetDeviceState\<close> gives an
  error (\<open>Inl\<close>) or the stored \<^verbatim>\<open>(currentAP, lastSeen, isConnected)\<close>, which is
  \<^verbatim>\<open>("", time.Time{}, false)\<close> when the device has no row; the error of
  \<^verbatim>\<open>GetLastGateTrigger\<close> is dropped by the caller, which then gets the zero time.
  \<open>loadDevice\<close> is the body of the loop of \<^verbatim>\<open>loadDeviceStates\<close> over the configured
  devices; a device whose state cannot be read is skipped (the line that the code
  writes to the logger then is left out).
\<close>

record db_env =
  GetDeviceState :: "string \<Rightarrow> string + (string \<times> time \<times> bool)"
  GetLastGateTrigger :: "string \<Rightarrow> time"

definition loadDevice ::
  "db_env \<Rightarrow> DeviceConfig \<Rightarrow> (string \<rightharpoonup> DeviceState) \<Rightarrow> (string \<rightharpoonup> DeviceState)" where
  "loadDevice db device states =
     (if \<not> Enabled device then states
      else
        (case GetDeviceState db (cfgMAC device) of
           Inl err \<Rightarrow> states
         | Inr (currentAP, lastSeen, isConnected) \<Rightarrow>
             (let lastTrigger = GetLastGateTrigger db (cfgMAC device);
                  normalizedMAC = ToUpper (cfgMAC device)
              in states(normalizedMAC \<mapsto>
                   \<lparr>MAC = normalizedMAC, Name = cfgName device, CurrentAP = currentAP,
                    PreviousAP = [], LastSeen = lastSeen, IsConnected = isConnected,
                    LastGateTrigger = lastTrigger\<rparr>))))"

definition loadDeviceStates :: "App \<Rightarrow> db_env \<Rightarrow> App" where
  "loadDeviceStates app db =
     app\<lparr>deviceStates := fold (loadDevice db) (Devices (Config app)) (deviceStates app)\<rparr>"

text \<open>
  \<^verbatim>\<open>StartMonitoring\<close> up to its first poll: nothing happens when monitoring is already
  running.
\<close>

definition StartMonitoring :: "App \<Rightarrow> db_env \<Rightarrow> App" where
  "StartMonitoring app db =
     (if isMonitoring app then app
      else
        loadDeviceStates
          (app\<lparr>isMonitoring := True, deviceStates := Map.empty,
               GateController := \<lparr>triggerURL = TriggerURL (Shelly (Config app))\<rparr>\<rparr>)
          db)"

section \<open>Adding, updating and removing a device\<close>

text \<open>The three operations of \<^verbatim>\<open>config.Config\<close>; \<open>None\<close> is the error.\<close>

definition AddDevice :: "Config \<Rightarrow> string \<Rightarrow> string \<Rightarrow> Config option" where
  "AddDevice c mac name =
     (if mac \<in> set (map cfgMAC (Devices c)) then None
      else Some (c\<lparr>Devices := Devices c @ [\<lparr>cfgMAC = mac, cfgName = name, Enabled = True\<rparr>]\<rparr>))"

fun updateFirst :: "string \<Rightarrow> string \<Rightarrow> bool \<Rightarrow> DeviceConfig list \<Rightarrow> DeviceConfig list option" where
  "updateFirst mac name enabled [] = None"
| "updateFirst mac name enabled (d # ds) =
     (if cfgMAC d = mac then Some (d\<lparr>cfgName := name, Enabled := enabled\<rparr> # ds)
      else map_option ((#) d) (updateFirst mac name enabled ds))"

definition UpdateDevice :: "Config \<Rightarrow> string \<Rightarrow> string \<Rightarrow> bool \<Rightarrow> Config option" where
  "UpdateDevice c mac name enabled =
     map_option (\<lambda>ds. c\<lparr>Devices := ds\<rparr>) (updateFirst mac name enabled (Devices c))"

fun removeFirst :: "string \<Rightarrow> DeviceConfig list \<Rightarrow> DeviceConfig list option" where
  "removeFirst mac [] = None"
| "removeFirst mac (d # ds) =
     (if cfgMAC d = mac then Some ds else map_option ((#) d) (removeFirst mac ds))"

definition RemoveDevice :: "Config \<Rightarrow> string \<Rightarrow> Config option" where
  "RemoveDevice c mac = map_option (\<lambda>ds. c\<lparr>Devices := ds\<rparr>) (removeFirst mac (Devices c))"

text \<open>
  The three HTTP handlers, on the decoded request (\<open>None\<close> when the body does not
  decode): the status of the response and the new state. \<open>saved\<close> is the error of
  \<^verbatim>\<open>config.SaveConfig\<close>.
\<close>

definition newDeviceState :: "string \<Rightarrow> string \<Rightarrow> DeviceState" where
  "newDeviceState mac name =
     \<lparr>MAC = mac, Name = name, CurrentAP = [], PreviousAP = [], LastSeen = 0,
      IsConnected = False, LastGateTrigger = 0\<rparr>"

definition AddDeviceHandler :: "App \<Rightarrow> (string \<times> string) option \<Rightarrow> string option \<Rightarrow> nat \<times> App" where
  "AddDeviceHandler app req saved =
     (case req of
        None \<Rightarrow> (400, app)
      | Some (reqMAC, reqName) \<Rightarrow>
          (case AddDevice (Config app) reqMAC reqName of
             None \<Rightarrow> (400, app)
           | Some c \<Rightarrow>
               (let app1 = app\<lparr>Config := c\<rparr>
                in case saved of
                     Some err \<Rightarrow> (500, app1)
                   | None \<Rightarrow>
                       (200,
                        if isMonitoring app1 then
                          (let normalizedMAC = ToUpper reqMAC
                           in app1\<lparr>deviceStates :=
                                (deviceStates app1)(normalizedMAC \<mapsto> newDeviceState normalizedMAC reqName)\<rparr>)
                        else app1))))"

definition UpdateDeviceHandler ::
  "App \<Rightarrow> string \<Rightarrow> (string \<times> bool) option \<Rightarrow> string option \<Rightarrow> nat \<times> App" where
  "UpdateDeviceHandler app mac req saved =
     (case req of
        None \<Rightarrow> (400, app)
      | Some (reqName, reqEnabled) \<Rightarrow>
          (case UpdateDevice (Config app) mac reqName reqEnabled of
             None \<Rightarrow> (404, app)
           | Some c \<Rightarrow>
               (let app1 = app\<lparr>Config := c\<rparr>
                in case saved of
                     Some err \<Rightarrow> (500, app1)
                   | None \<Rightarrow>
                       (200,
                        case deviceStates app1 mac of
                          Some state \<Rightarrow>
                            (if \<not> reqEnabled then
                               app1\<lparr>deviceStates := (deviceStates app1)(mac := None)\<rparr>
                             else
                               app1\<lparr>deviceStates :=
                                 (deviceStates app1)(mac \<mapsto> state\<lparr>Name := reqName\<rparr>)\<rparr>)
                        | None \<Rightarrow>
                            (if reqEnabled \<and> isMonitoring app1 then
                               app1\<lparr>deviceStates :=
                                 (deviceStates app1)(mac \<mapsto> newDeviceState mac reqName)\<rparr>
                             else app1)))))"

definition DeleteDeviceHandler :: "App \<Rightarrow> string \<Rightarrow> string option \<Rightarrow> nat \<times> App" where
  "DeleteDeviceHandler app mac saved =
     (case RemoveDevice (Config app) mac of
        None \<Rightarrow> (404, app)
      | Some c \<Rightarrow>
          (let app1 = app\<lparr>Config := c\<rparr>
           in case saved of
                Some err \<Rightarrow> (500, app1)
              | None \<Rightarrow> (200, app1\<lparr>deviceStates := (deviceStates app1)(mac := None)\<rparr>)))"

section \<open>Reading a trace\<close>

text \<open>
  An entry of the event log of a given kind; the calls of the actuator; and the line
  that \<^verbatim>\<open>checkAndOpenGate\<close> writes first in either branch, which shows that the gate
  trigger controller was invoked.
\<close>

fun isLogEvent :: "string \<Rightarrow> effect \<Rightarrow> bool" where
  "isLogEvent kind (DB_LogEvent entry) = (Event entry = kind)"
| "isLogEvent kind other = False"

definition logged :: "string \<Rightarrow> effect list \<Rightarrow> bool" where
  "logged kind trace = (filter (isLogEvent kind) trace \<noteq> [])"

fun isAnyLogEvent :: "effect \<Rightarrow> bool" where
  "isAnyLogEvent (DB_LogEvent entry) = True"
| "isAnyLogEvent other = False"

definition actuatorCalls :: "effect list \<Rightarrow> nat" where
  "actuatorCalls trace = length (filter (\<lambda>x. x = GateController_OpenGate) trace)"

fun isHTTP :: "effect \<Rightarrow> bool" where
  "isHTTP (HTTP_Get url) = True"
| "isHTTP other = False"

definition httpRequests :: "effect list \<Rightarrow> nat" where
  "httpRequests trace = length (filter isHTTP trace)"

fun isGateCheck :: "effect \<Rightarrow> bool" where
  "isGateCheck (Logger_Infof format args) =
     (format = ''Gate recently opened for %s, skipping (cooldown: %v remaining)'' \<or>
      format = ''Opening gate for %s (%s)'')"
| "isGateCheck other = False"

definition gateInvoked :: "effect list \<Rightarrow> bool" where
  "gateInvoked trace = (filter isGateCheck trace \<noteq> [])"

section \<open>The direction of a roam as the specification words it\<close>

definition roamDirection_spec :: "string \<Rightarrow> string \<Rightarrow> string \<Rightarrow> string" where
  "roamDirection_spec gateAP fromAP toAP =
     (if toAP = gateAP \<and> fromAP \<noteq> [] then ''leaving''
      else if toAP = gateAP \<and> fromAP = [] then ''arriving''
      else if fromAP = gateAP \<and> toAP \<noteq> gateAP then ''arriving''
      else ''unknown'')"

section \<open>Concrete inputs\<close>

text \<open>
  A configuration with the gate at \<open>GATE-MAC\<close> and a cooldown of five minutes, with and
  without activity logging; a clock reading in the year 2026; and an environment whose
  clock starts at a given time and whose collaborators never fail, but for the HTTP
  request of the gate, which answers as given.
\<close>

definition cfg_logging :: Config where
  "cfg_logging =
     \<lparr>UniFi = \<lparr>SiteID = ''default'', GateAPMAC = ''GATE-MAC'', PollInterval = 1\<rparr>,
      Shelly = \<lparr>TriggerURL = ''http://shelly/relay/0?turn=on''\<rparr>,
      Gate = \<lparr>OpenDuration = 5, LogActivity = True\<rparr>,
      Devices = [\<lparr>cfgMAC = ''aa:bb:cc:dd:ee:01'', cfgName = ''car'', Enabled = True\<rparr>]\<rparr>"

definition cfg_quiet :: Config where
  "cfg_quiet = cfg_logging\<lparr>Gate := \<lparr>OpenDuration = 5, LogActivity = False\<rparr>\<rparr>"

definition gc_shelly :: Controller where
  "gc_shelly = \<lparr>triggerURL = ''http://shelly/relay/0?turn=on''\<rparr>"

definition t0 :: time where
  "t0 = 63900000000000000000"

definition env_at :: "time \<Rightarrow> http_result \<Rightarrow> env" where
  "env_at t get =
     \<lparr>event_logEvent_err = None, now_check = t, now_remaining = t + 1000,
      http_get = get, now_trigger = t + 200000000, updateLastGateTrigger_err = None,
      gate_logEvent_err = None, now_seen = t + 300000000, updateDeviceState_err = None\<rparr>"

definition state_car :: DeviceState where
  "state_car = newDeviceState ''AA:BB:CC:DD:EE:01'' ''car''"

definition app_backoff :: App where
  "app_backoff =
     \<lparr>Config = cfg_logging, UniFiClient = True, GateController = gc_shelly,
      isMonitoring = True, deviceStates = Map.empty, authRetryCount = 3,
      lastAuthAttempt = t0, authRetryBackoff = 4 * Second\<rparr>"

definition auth_env_at :: "time \<Rightarrow> string option \<Rightarrow> auth_env" where
  "auth_env_at t result =
     \<lparr>now_backoff = t, now_wait = t + 1000, now_attempt = t + 2000, login = result\<rparr>"


definition client_fresh :: WirelessClient where
  "client_fresh = \<lparr>clMAC = ''aa:bb:cc:dd:ee:01'', AP_MAC = ''GATE-MAC'', Uptime = 10\<rparr>"

definition client_parked :: WirelessClient where
  "client_parked = \<lparr>clMAC = ''aa:bb:cc:dd:ee:01'', AP_MAC = ''GATE-MAC'', Uptime = 45\<rparr>"

definition registry_car :: "string \<rightharpoonup> DeviceState" where
  "registry_car = [''AA:BB:CC:DD:EE:01'' \<mapsto> state_car]"

text \<open>
  A run of calls of \<^verbatim>\<open>reauthenticateWithBackoff\<close>, one for each environment of the
  list; a state that has never tried to authenticate; and \<open>n\<close> logins that fail, 100
  seconds apart.
\<close>

fun reauthenticateAll :: "App \<Rightarrow> auth_env list \<Rightarrow> App \<times> effect list" where
  "reauthenticateAll app [] = (app, [])"
| "reauthenticateAll app (e # es) =
     (case reauthenticateWithBackoff app e of
        (err, app1, tried) \<Rightarrow>
          (case reauthenticateAll app1 es of (app2, later) \<Rightarrow> (app2, tried @ later)))"

definition app_fresh :: App where
  "app_fresh =
     \<lparr>Config = cfg_logging, UniFiClient = True, GateController = gc_shelly,
      isMonitoring = True, deviceStates = Map.empty, authRetryCount = 0,
      lastAuthAttempt = 0, authRetryBackoff = 0\<rparr>"

definition failing_logins :: "nat \<Rightarrow> auth_env list" where
  "failing_logins n =
     map (\<lambda>k. auth_env_at (t0 + int k * (100 * Second)) (Some ''failed to login: 401 Unauthorized''))
       [0..<n]"

definition logins :: "effect list \<Rightarrow> nat" where
  "logins trace = length (filter (\<lambda>x. x = UniFiClient_Login) trace)"

text \<open>
  A database without rows, and the application before and after the start of monitoring
  with the configured device \<open>aa:bb:cc:dd:ee:01\<close>.
\<close>

definition db_fresh :: db_env where
  "db_fresh = \<lparr>GetDeviceState = (\<lambda>mac. Inr ([], 0, False)), GetLastGateTrigger = (\<lambda>mac. 0)\<rparr>"

definition app_stopped :: App where
  "app_stopped =
     \<lparr>Config = cfg_logging, UniFiClient = True, GateController = \<lparr>triggerURL = []\<rparr>,
      isMonitoring = False, deviceStates = Map.empty, authRetryCount = 0,
      lastAuthAttempt = 0, authRetryBackoff = 0\<rparr>"

definition app_started :: App where
  "app_started = StartMonitoring app_stopped db_fresh"

section \<open>Sequences of operations on the registry\<close>

text \<open>\<^verbatim>\<open>StopMonitoring\<close> clears the flag; the registry stays as it is.\<close>

definition StopMonitoring :: "App \<Rightarrow> App" where
  "StopMonitoring app = (if isMonitoring app then app\<lparr>isMonitoring := False\<rparr> else app)"


text \<open>
  The operations that read or write the registry: a poll cycle, the three device
  handlers, and the stop and the start of monitoring. A run applies a list of them in
  order.
\<close>

datatype operation =
    Poll poll_env
  | Add "(string \<times> string) option" "string option"
  | Update string "(string \<times> bool) option" "string option"
  | Delete string "string option"
  | Stop
  | Start db_env

fun apply_operation :: "App \<Rightarrow> operation \<Rightarrow> App" where
  "apply_operation app (Poll pe) = fst (pollUniFi app pe)"
| "apply_operation app (Add req saved) = snd (AddDeviceHandler app req saved)"
| "apply_operation app (Update mac req saved) = snd (UpdateDeviceHandler app mac req saved)"
| "apply_operation app (Delete mac saved) = snd (DeleteDeviceHandler app mac saved)"
| "apply_operation app Stop = StopMonitoring app"
| "apply_operation app (Start db) = StartMonitoring app db"

definition run :: "App \<Rightarrow> operation list \<Rightarrow> App" where
  "run app ops = foldl apply_operation app ops"


text \<open>
  The property of a device state that \<open>CurrentAP\<close> is empty exactly when the device is
  not connected; the same property of the states that the database returns at the
  start of monitoring, of a fetched snapshot (every client names an access point), and
  of a registry (every state in it has the property).
\<close>

definition consistent :: "DeviceState \<Rightarrow> bool" where
  "consistent state = (CurrentAP state = [] \<longleftrightarrow> \<not> IsConnected state)"

definition stored_ok :: "db_env \<Rightarrow> bool" where
  "stored_ok db =
     (\<forall>mac. case GetDeviceState db mac of
              Inl err \<Rightarrow> True
            | Inr (currentAP, lastSeen, isConnected) \<Rightarrow> (currentAP = [] \<longleftrightarrow> \<not> isConnected))"

definition snapshot_ok :: "string + WirelessClient list \<Rightarrow> bool" where
  "snapshot_ok fetched =
     (case fetched of Inl err \<Rightarrow> True | Inr clients \<Rightarrow> list_all (\<lambda>client. AP_MAC client \<noteq> []) clients)"

fun operation_ok :: "operation \<Rightarrow> bool" where
  "operation_ok (Poll pe) = (snapshot_ok (fetch pe) \<and> snapshot_ok (fetch_again pe))"
| "operation_ok (Start db) = stored_ok db"
| "operation_ok other = True"


definition registry_ok :: "(string \<rightharpoonup> DeviceState) \<Rightarrow> bool" where
  "registry_ok states = (\<forall>mac state. states mac = Some state \<longrightarrow> consistent state)"

text \<open>
  A client that the controller reports without an access point, and the environment of
  a poll that fetches the given clients at the first try.
\<close>

definition client_no_ap :: WirelessClient where
  "client_no_ap = \<lparr>clMAC = ''aa:bb:cc:dd:ee:01'', AP_MAC = [], Uptime = 10\<rparr>"

definition poll_of :: "WirelessClient list \<Rightarrow> poll_env" where
  "poll_of clients =
     \<lparr>fetch = Inr clients, auth = auth_env_at t0 None, fetch_again = Inr clients,
      devices = (\<lambda>mac. env_at t0 (Get_response 200))\<rparr>"



section \<open>Properties of the gate controller\<close>

lemma httpRequests_OpenGate:
  "httpRequests (snd (OpenGate url get)) = (if url = [] then 0 else 1)"
  by (simp add: OpenGate_def httpRequests_def Let_def split: http_result.split)

lemma isLogEvent_OpenGate: "filter (isLogEvent kind) (snd (OpenGate url get)) = []"
  by (simp add: OpenGate_def Let_def split: http_result.split)

lemma actuator_OpenGate: "filter (\<lambda>x. x = GateController_OpenGate) (snd (OpenGate url get)) = []"
  by (simp add: OpenGate_def Let_def split: http_result.split)

text \<open>
  C10. \<^verbatim>\<open>OpenGate\<close> returns an error and performs no HTTP request when the trigger URL
  is empty. With a trigger URL it performs one request, to that URL, and returns success
  exactly when the request gave a response whose status is 200: a failed request and
  every other status, 204 for one, is an error.
\<close>

theorem OpenGate_success_iff_200:
  "(url = [] \<longrightarrow>
      fst (OpenGate url get) \<noteq> None \<and> httpRequests (snd (OpenGate url get)) = 0) \<and>
   (url \<noteq> [] \<longrightarrow>
      httpRequests (snd (OpenGate url get)) = 1 \<and>
      HTTP_Get url \<in> set (snd (OpenGate url get)) \<and>
      (fst (OpenGate url get) = None \<longleftrightarrow> get = Get_response 200) \<and>
      (fst (OpenGate url (Get_response code)) = None \<longleftrightarrow> code = 200))"
  by (simp add: OpenGate_def httpRequests_def Let_def split: http_result.split)

theorem OpenGate_success_iff_200_witness:
  "fst (OpenGate [] (Get_response 200)) \<noteq> None \<and>
   httpRequests (snd (OpenGate [] (Get_response 200))) = 0 \<and>
   httpRequests (snd (OpenGate ''http://shelly/relay/0?turn=on'' (Get_response 204))) = 1 \<and>
   fst (OpenGate ''http://shelly/relay/0?turn=on'' (Get_response 204)) \<noteq> None \<and>
   fst (OpenGate ''http://shelly/relay/0?turn=on'' (Get_response 200)) = None"
  using OpenGate_success_iff_200 [of "[]" "Get_response 200" 200]
    OpenGate_success_iff_200 [of "''http://shelly/relay/0?turn=on''" "Get_response 204" 200]
  by simp

section \<open>Properties of the gate trigger controller\<close>


lemma actuator_logEvent: "filter (\<lambda>x. x = GateController_OpenGate) (logEvent cfg entry err) = []"
  by (simp add: logEvent_def split: option.split)

lemma isGateCheck_logEvent: "filter isGateCheck (logEvent cfg entry err) = []"
  by (simp add: logEvent_def split: option.split)

lemma logged_logEvent:
  "filter (isLogEvent kind) (logEvent cfg entry err) \<noteq> [] \<longleftrightarrow>
     LogActivity (Gate cfg) \<and> Event entry = kind"
  by (simp add: logEvent_def split: option.split)


lemma gateInvoked_append: "gateInvoked (xs @ ys) \<longleftrightarrow> gateInvoked xs \<or> gateInvoked ys"
  by (auto simp add: gateInvoked_def)

lemma checkAndOpenGate_skip:
  assumes "time_Since (now_check e) (LastGateTrigger state) < cooldownDuration cfg"
  shows "checkAndOpenGate cfg gc e state direction =
           (state,
            Logger_Infof ''Gate recently opened for %s, skipping (cooldown: %v remaining)''
              [S (Name state),
               D (int64 (cooldownDuration cfg - time_Since (now_remaining e) (LastGateTrigger state)))] #
            logEvent cfg
              \<lparr>DeviceMAC = MAC state, DeviceName = Name state, Event = ''gate_skipped'',
               Direction = direction, FromAP = [], ToAP = [], GateOpened = False,
               Message = ''Gate recently opened, cooldown active''\<rparr>
              (gate_logEvent_err e))"
  using assms by (simp add: checkAndOpenGate_def)

lemma checkAndOpenGate_failed:
  assumes "\<not> time_Since (now_check e) (LastGateTrigger state) < cooldownDuration cfg"
    and "fst (OpenGate (triggerURL gc) (http_get e)) = Some err"
  shows "checkAndOpenGate cfg gc e state direction =
           (state,
            [Logger_Infof ''Opening gate for %s (%s)'' [S (Name state), S direction],
             GateController_OpenGate] @
            snd (OpenGate (triggerURL gc) (http_get e)) @
            Logger_Errorf ''Failed to open gate: %v'' [S (gate_Error err)] #
            logEvent cfg
              \<lparr>DeviceMAC = MAC state, DeviceName = Name state, Event = ''gate_error'',
               Direction = direction, FromAP = [], ToAP = [], GateOpened = False,
               Message = gate_Error err\<rparr>
              (gate_logEvent_err e))"
  using assms by (cases "OpenGate (triggerURL gc) (http_get e)") (simp add: checkAndOpenGate_def)

lemma checkAndOpenGate_opened:
  assumes "\<not> time_Since (now_check e) (LastGateTrigger state) < cooldownDuration cfg"
    and "fst (OpenGate (triggerURL gc) (http_get e)) = None"
  shows "checkAndOpenGate cfg gc e state direction =
           (state\<lparr>LastGateTrigger := now_trigger e\<rparr>,
            [Logger_Infof ''Opening gate for %s (%s)'' [S (Name state), S direction],
             GateController_OpenGate] @
            snd (OpenGate (triggerURL gc) (http_get e)) @
            DB_UpdateLastGateTrigger (MAC state) #
            (case updateLastGateTrigger_err e of
               None \<Rightarrow> []
             | Some u \<Rightarrow>
                 [Logger_Errorf ''Failed to update last gate trigger for %s: %v''
                    [S (MAC state), S u]]) @
            logEvent cfg
              \<lparr>DeviceMAC = MAC state, DeviceName = Name state, Event = ''gate_triggered'',
               Direction = direction, FromAP = [], ToAP = [], GateOpened = True,
               Message = ''Gate opened successfully''\<rparr>
              (gate_logEvent_err e))"
  using assms by (cases "OpenGate (triggerURL gc) (http_get e)") (simp add: checkAndOpenGate_def)


lemma failed_facts:
  assumes "\<not> time_Since (now_check e) (LastGateTrigger state) < cooldownDuration cfg"
    and "fst (OpenGate (triggerURL gc) (http_get e)) = Some err"
  shows "fst (checkAndOpenGate cfg gc e state direction) = state"
    and "actuatorCalls (snd (checkAndOpenGate cfg gc e state direction)) = 1"
    and "logged ''gate_error'' (snd (checkAndOpenGate cfg gc e state direction)) \<longleftrightarrow>
           LogActivity (Gate cfg)"
    and "\<not> logged ''gate_triggered'' (snd (checkAndOpenGate cfg gc e state direction))"
    and "\<not> logged ''gate_skipped'' (snd (checkAndOpenGate cfg gc e state direction))"
  by (simp_all add: checkAndOpenGate_failed [OF assms] actuatorCalls_def
      logged_def actuator_logEvent actuator_OpenGate isLogEvent_OpenGate logged_logEvent)

lemma opened_facts:
  assumes "\<not> time_Since (now_check e) (LastGateTrigger state) < cooldownDuration cfg"
    and "fst (OpenGate (triggerURL gc) (http_get e)) = None"
  shows "fst (checkAndOpenGate cfg gc e state direction) = state\<lparr>LastGateTrigger := now_trigger e\<rparr>"
    and "actuatorCalls (snd (checkAndOpenGate cfg gc e state direction)) = 1"
    and "logged ''gate_triggered'' (snd (checkAndOpenGate cfg gc e state direction)) \<longleftrightarrow>
           LogActivity (Gate cfg)"
    and "\<not> logged ''gate_error'' (snd (checkAndOpenGate cfg gc e state direction))"
    and "\<not> logged ''gate_skipped'' (snd (checkAndOpenGate cfg gc e state direction))"
  by (simp_all add: checkAndOpenGate_opened [OF assms] actuatorCalls_def
      logged_def actuator_logEvent actuator_OpenGate isLogEvent_OpenGate logged_logEvent
      split: option.split)

lemma gateInvoked_checkAndOpenGate: "gateInvoked (snd (checkAndOpenGate cfg gc e state d))"
  by (simp add: checkAndOpenGate_def gateInvoked_def Let_def split: prod.split option.split)

text \<open>
  The durations of the model are the mathematical ones as long as nothing overflows: a
  difference of two times within 292 years, and a cooldown of at most 153722867 minutes.
\<close>

lemma time_Since_exact:
  "minDuration \<le> now - t \<Longrightarrow> now - t \<le> maxDuration \<Longrightarrow> time_Since now t = now - t"
  by (simp add: time_Since_def time_Sub_def)

lemma int64_exact: "- 9223372036854775808 \<le> x \<Longrightarrow> x \<le> 9223372036854775807 \<Longrightarrow> int64 x = x"
  unfolding int64_def by (rule signed_take_bit_int_eq_self) simp_all

lemma cooldownDuration_exact:
  "- 153722867 \<le> OpenDuration (Gate cfg) \<Longrightarrow> OpenDuration (Gate cfg) \<le> 153722867 \<Longrightarrow>
   cooldownDuration cfg = OpenDuration (Gate cfg) * 60 * 1000000000"
  unfolding cooldownDuration_def Minute_def by (subst int64_exact) simp_all


text \<open>Facts about the concrete inputs.\<close>

lemma cooldown_cfg_logging: "cooldownDuration cfg_logging = 300000000000"
  by (simp add: cooldownDuration_def cfg_logging_def Minute_def int64_def)

lemma cooldown_cfg_quiet: "cooldownDuration cfg_quiet = 300000000000"
  by (simp add: cooldownDuration_def cfg_quiet_def cfg_logging_def Minute_def int64_def)

lemma LogActivity_cfg_quiet: "\<not> LogActivity (Gate cfg_quiet)"
  by (simp add: cfg_quiet_def)

lemma LogActivity_cfg_logging: "LogActivity (Gate cfg_logging)"
  by (simp add: cfg_logging_def)

lemma never_triggered_eligible:
  "\<not> time_Since (now_check (env_at t0 get)) (LastGateTrigger state_car) < 300000000000"
  by (simp add: env_at_def t0_def state_car_def newDeviceState_def time_Since_def time_Sub_def
      maxDuration_def minDuration_def)

lemma OpenGate_503: "fst (OpenGate (triggerURL gc_shelly) (http_get (env_at t (Get_response 503)))) = Some (BadStatus 503)"
  by (simp add: OpenGate_def gc_shelly_def env_at_def)

lemma OpenGate_200: "fst (OpenGate (triggerURL gc_shelly) (http_get (env_at t (Get_response 200)))) = None"
  by (simp add: OpenGate_def gc_shelly_def env_at_def)


lemma showInt_503: "showInt 503 = ''503''"
  by code_simp



text \<open>
  C2, as the code has it. For every device and every event that reaches the actuator call
  (the cooldown test has failed), the actuator is called once. If the call fails, the
  device state, and with it \<open>LastGateTrigger\<close>, is unchanged, and a \<open>gate_error\<close>
  entry is written to the event log exactly when activity logging is on. If the call
  succeeds, \<open>LastGateTrigger\<close> is set to the current time, and a \<open>gate_triggered\<close>
  entry is written exactly when activity logging is on.
\<close>

theorem actuator_result_and_cooldown:
  assumes "\<not> time_Since (now_check e) (LastGateTrigger state) < cooldownDuration cfg"
  shows "actuatorCalls (snd (checkAndOpenGate cfg gc e state d)) = 1 \<and>
   (fst (OpenGate (triggerURL gc) (http_get e)) \<noteq> None \<longrightarrow>
      fst (checkAndOpenGate cfg gc e state d) = state \<and>
      (logged ''gate_error'' (snd (checkAndOpenGate cfg gc e state d)) \<longleftrightarrow>
         LogActivity (Gate cfg)) \<and>
      \<not> logged ''gate_triggered'' (snd (checkAndOpenGate cfg gc e state d))) \<and>
   (fst (OpenGate (triggerURL gc) (http_get e)) = None \<longrightarrow>
      fst (checkAndOpenGate cfg gc e state d) = state\<lparr>LastGateTrigger := now_trigger e\<rparr> \<and>
      (logged ''gate_triggered'' (snd (checkAndOpenGate cfg gc e state d)) \<longleftrightarrow>
         LogActivity (Gate cfg)) \<and>
      \<not> logged ''gate_error'' (snd (checkAndOpenGate cfg gc e state d)))"
proof (cases "fst (OpenGate (triggerURL gc) (http_get e))")
  case None
  from opened_facts [OF assms None, of d] None show ?thesis by simp
next
  case (Some err)
  from failed_facts [OF assms Some, of d] Some show ?thesis by simp
qed

theorem actuator_result_and_cooldown_witness:
  "\<not> time_Since (now_check (env_at t0 (Get_response 503))) (LastGateTrigger state_car)
       < cooldownDuration cfg_logging \<and>
   fst (OpenGate (triggerURL gc_shelly) (http_get (env_at t0 (Get_response 503)))) \<noteq> None \<and>
   LastGateTrigger
     (fst (checkAndOpenGate cfg_logging gc_shelly (env_at t0 (Get_response 503)) state_car
             directionArriving)) = 0 \<and>
   logged ''gate_error''
     (snd (checkAndOpenGate cfg_logging gc_shelly (env_at t0 (Get_response 503)) state_car
             directionArriving)) \<and>
   \<not> time_Since (now_check (env_at t0 (Get_response 200))) (LastGateTrigger state_car)
       < cooldownDuration cfg_logging \<and>
   fst (OpenGate (triggerURL gc_shelly) (http_get (env_at t0 (Get_response 200)))) = None \<and>
   LastGateTrigger
     (fst (checkAndOpenGate cfg_logging gc_shelly (env_at t0 (Get_response 200)) state_car
             directionArriving)) = t0 + 200000000 \<and>
   logged ''gate_triggered''
     (snd (checkAndOpenGate cfg_logging gc_shelly (env_at t0 (Get_response 200)) state_car
             directionArriving))"
proof -
  have e503: "\<not> time_Since (now_check (env_at t0 (Get_response 503))) (LastGateTrigger state_car)
       < cooldownDuration cfg_logging"
    by (simp add: cooldown_cfg_logging never_triggered_eligible)
  have e200: "\<not> time_Since (now_check (env_at t0 (Get_response 200))) (LastGateTrigger state_car)
       < cooldownDuration cfg_logging"
    by (simp add: cooldown_cfg_logging never_triggered_eligible)
  from actuator_result_and_cooldown [OF e503, of gc_shelly directionArriving]
    actuator_result_and_cooldown [OF e200, of gc_shelly directionArriving]
    e503 e200 OpenGate_503 [of t0] OpenGate_200 [of t0]
  show ?thesis
    by (simp add: LogActivity_cfg_logging state_car_def newDeviceState_def env_at_def)
qed

text \<open>
  C2 as stated fails without activity logging: a failed actuator call then leaves only
  lines of the logger, and no \<open>gate_error\<close> entry in the event log.
\<close>

theorem gate_error_not_logged_counterexample:
  "\<not> time_Since (now_check (env_at t0 (Get_response 503))) (LastGateTrigger state_car)
       < cooldownDuration cfg_quiet \<and>
   fst (OpenGate (triggerURL gc_shelly) (http_get (env_at t0 (Get_response 503)))) =
     Some (BadStatus 503) \<and>
   snd (checkAndOpenGate cfg_quiet gc_shelly (env_at t0 (Get_response 503)) state_car
          directionArriving) =
     [Logger_Infof ''Opening gate for %s (%s)'' [S ''car'', S ''arriving''],
      GateController_OpenGate,
      Logger_Infof ''Triggering gate open via: %s'' [S ''http://shelly/relay/0?turn=on''],
      HTTP_Get ''http://shelly/relay/0?turn=on'',
      Logger_Errorf ''Failed to open gate: %v'' [S ''gate trigger returned status 503'']] \<and>
   \<not> logged ''gate_error''
     (snd (checkAndOpenGate cfg_quiet gc_shelly (env_at t0 (Get_response 503)) state_car
             directionArriving))"
proof -
  have e503: "\<not> time_Since (now_check (env_at t0 (Get_response 503))) (LastGateTrigger state_car)
       < cooldownDuration cfg_quiet"
    by (simp add: cooldown_cfg_quiet never_triggered_eligible)
  have tr: "snd (OpenGate (triggerURL gc_shelly) (http_get (env_at t0 (Get_response 503)))) =
     [Logger_Infof ''Triggering gate open via: %s'' [S ''http://shelly/relay/0?turn=on''],
      HTTP_Get ''http://shelly/relay/0?turn=on'']"
    by (simp add: OpenGate_def gc_shelly_def env_at_def)
  have q: "logEvent cfg_quiet entry err = []" for entry err
    by (simp add: logEvent_def LogActivity_cfg_quiet)
  have full: "snd (checkAndOpenGate cfg_quiet gc_shelly (env_at t0 (Get_response 503)) state_car
          directionArriving) =
     [Logger_Infof ''Opening gate for %s (%s)'' [S ''car'', S ''arriving''],
      GateController_OpenGate,
      Logger_Infof ''Triggering gate open via: %s'' [S ''http://shelly/relay/0?turn=on''],
      HTTP_Get ''http://shelly/relay/0?turn=on'',
      Logger_Errorf ''Failed to open gate: %v'' [S ''gate trigger returned status 503'']]"
    unfolding checkAndOpenGate_failed [OF e503 OpenGate_503]
    by (simp add: tr q showInt_503 state_car_def newDeviceState_def directionArriving_def)
  have none: "\<not> logged ''gate_error''
     (snd (checkAndOpenGate cfg_quiet gc_shelly (env_at t0 (Get_response 503)) state_car
             directionArriving))"
    by (simp add: failed_facts(3) [OF e503 OpenGate_503] LogActivity_cfg_quiet)
  from e503 OpenGate_503 [of t0] full none show ?thesis
    by blast
qed

section \<open>Properties of the roam handler\<close>

lemma gateInvoked_roamedLog: "\<not> gateInvoked (roamedLog cfg e state fromAP toAP d)"
  by (simp add: gateInvoked_def roamedLog_def isGateCheck_logEvent)

lemma gateInvoked_connectedLog: "\<not> gateInvoked (connectedLog cfg e state toAP fromAP d)"
  by (simp add: gateInvoked_def connectedLog_def isGateCheck_logEvent)

lemma roamDirection_eq_spec:
  "roamDirection cfg fromAP toAP = roamDirection_spec (GateAPMAC (UniFi cfg)) fromAP toAP"
  by (simp add: roamDirection_def roamDirection_spec_def directionLeaving_def
      directionArriving_def directionUnknown_def)

text \<open>
  C4. For every roam event, the direction that \<^verbatim>\<open>handleDeviceRoamed\<close> computes is the
  one of the specification: leaving when \<open>toAP\<close> is the gate AP and \<open>fromAP\<close> is not
  empty, arriving when \<open>toAP\<close> is the gate AP and \<open>fromAP\<close> is empty, arriving when
  \<open>fromAP\<close> is the gate AP and \<open>toAP\<close> is not, and unknown otherwise. The handler
  writes this direction in its first line, and it invokes the gate trigger controller,
  with this direction, exactly when \<open>toAP\<close> or \<open>fromAP\<close> is the gate AP.
\<close>

theorem roam_direction_and_gate:
  "handleDeviceRoamed cfg gc e state fromAP toAP =
     (if toAP = GateAPMAC (UniFi cfg) \<or> fromAP = GateAPMAC (UniFi cfg) then
        (fst (checkAndOpenGate cfg gc e state
                (roamDirection_spec (GateAPMAC (UniFi cfg)) fromAP toAP)),
         roamedLog cfg e state fromAP toAP (roamDirection_spec (GateAPMAC (UniFi cfg)) fromAP toAP) @
         snd (checkAndOpenGate cfg gc e state
                (roamDirection_spec (GateAPMAC (UniFi cfg)) fromAP toAP)))
      else
        (state,
         roamedLog cfg e state fromAP toAP (roamDirection_spec (GateAPMAC (UniFi cfg)) fromAP toAP))) \<and>
   hd (snd (handleDeviceRoamed cfg gc e state fromAP toAP)) =
     Logger_Infof ''Device %s (%s) roamed from AP %s to AP %s (direction: %s)''
       [S (Name state), S (MAC state), S fromAP, S toAP,
        S (roamDirection_spec (GateAPMAC (UniFi cfg)) fromAP toAP)] \<and>
   (gateInvoked (snd (handleDeviceRoamed cfg gc e state fromAP toAP)) \<longleftrightarrow>
      toAP = GateAPMAC (UniFi cfg) \<or> fromAP = GateAPMAC (UniFi cfg))"
proof -
  have eq: "handleDeviceRoamed cfg gc e state fromAP toAP =
     (if toAP = GateAPMAC (UniFi cfg) \<or> fromAP = GateAPMAC (UniFi cfg) then
        (fst (checkAndOpenGate cfg gc e state
                (roamDirection_spec (GateAPMAC (UniFi cfg)) fromAP toAP)),
         roamedLog cfg e state fromAP toAP (roamDirection_spec (GateAPMAC (UniFi cfg)) fromAP toAP) @
         snd (checkAndOpenGate cfg gc e state
                (roamDirection_spec (GateAPMAC (UniFi cfg)) fromAP toAP)))
      else
        (state,
         roamedLog cfg e state fromAP toAP (roamDirection_spec (GateAPMAC (UniFi cfg)) fromAP toAP)))"
    by (simp add: handleDeviceRoamed_def Let_def roamDirection_eq_spec split: prod.split)
  have first: "hd (snd (handleDeviceRoamed cfg gc e state fromAP toAP)) =
     Logger_Infof ''Device %s (%s) roamed from AP %s to AP %s (direction: %s)''
       [S (Name state), S (MAC state), S fromAP, S toAP,
        S (roamDirection_spec (GateAPMAC (UniFi cfg)) fromAP toAP)]"
    by (simp add: eq roamedLog_def)
  have inv: "gateInvoked (snd (handleDeviceRoamed cfg gc e state fromAP toAP)) \<longleftrightarrow>
      toAP = GateAPMAC (UniFi cfg) \<or> fromAP = GateAPMAC (UniFi cfg)"
    by (simp add: eq gateInvoked_append gateInvoked_checkAndOpenGate gateInvoked_roamedLog)
  from eq first inv show ?thesis by blast
qed

section \<open>Properties of the re-authentication\<close>

text \<open>
  C6. Whenever \<^verbatim>\<open>reauthenticateWithBackoff\<close> is called while the time since the last
  attempt is strictly below the current backoff, it returns the "backoff in effect"
  error, which is not the error of a failed login, makes no call at all (so it does not
  log in), and leaves the state, and with it \<open>authRetryCount\<close>, \<open>lastAuthAttempt\<close>
  and \<open>authRetryBackoff\<close>, unchanged.
\<close>

theorem backoff_in_effect:
  assumes "time_Since (now_backoff e) (lastAuthAttempt app) < authRetryBackoff app"
  shows "reauthenticateWithBackoff app e =
           (Some (BackoffInEffect
              (int64 (authRetryBackoff app - time_Since (now_wait e) (lastAuthAttempt app)))),
            app, []) \<and>
         fst (reauthenticateWithBackoff app e) \<noteq> None \<and>
         fst (reauthenticateWithBackoff app e) \<noteq> Some (LoginFailed msg) \<and>
         UniFiClient_Login \<notin> set (snd (snd (reauthenticateWithBackoff app e))) \<and>
         authRetryCount (fst (snd (reauthenticateWithBackoff app e))) = authRetryCount app \<and>
         lastAuthAttempt (fst (snd (reauthenticateWithBackoff app e))) = lastAuthAttempt app \<and>
         authRetryBackoff (fst (snd (reauthenticateWithBackoff app e))) = authRetryBackoff app"
  using assms by (simp add: reauthenticateWithBackoff_def)

theorem backoff_in_effect_witness:
  "time_Since (now_backoff (auth_env_at (t0 + Second) None)) (lastAuthAttempt app_backoff)
     < authRetryBackoff app_backoff \<and>
   reauthenticateWithBackoff app_backoff (auth_env_at (t0 + Second) None) =
     (Some (BackoffInEffect 2999999000), app_backoff, [])"
proof -
  have h: "time_Since (now_backoff (auth_env_at (t0 + Second) None)) (lastAuthAttempt app_backoff)
     < authRetryBackoff app_backoff"
    by (simp add: auth_env_at_def app_backoff_def t0_def Second_def time_Since_def time_Sub_def
        maxDuration_def minDuration_def)
  have w: "int64 (authRetryBackoff app_backoff -
       time_Since (now_wait (auth_env_at (t0 + Second) None)) (lastAuthAttempt app_backoff)) =
     2999999000"
    by (simp add: auth_env_at_def app_backoff_def t0_def Second_def time_Since_def time_Sub_def
        maxDuration_def minDuration_def int64_def)
  from backoff_in_effect [OF h, of "''unauthorized''"] w h show ?thesis by simp
qed

section \<open>Properties of one poll of one device\<close>

lemma handleDeviceConnected_gate:
  "toAP = GateAPMAC (UniFi cfg) \<Longrightarrow>
   handleDeviceConnected cfg gc e state toAP fromAP =
     (fst (checkAndOpenGate cfg gc e state directionArriving),
      connectedLog cfg e state toAP fromAP directionArriving @
      snd (checkAndOpenGate cfg gc e state directionArriving))"
  by (simp add: handleDeviceConnected_def Let_def split: prod.split)

lemma handleDeviceConnected_elsewhere:
  "toAP \<noteq> GateAPMAC (UniFi cfg) \<Longrightarrow>
   handleDeviceConnected cfg gc e state toAP fromAP =
     (state, connectedLog cfg e state toAP fromAP directionUnknown)"
  by (simp add: handleDeviceConnected_def Let_def)

lemma logged_append: "logged kind (xs @ ys) \<longleftrightarrow> logged kind xs \<or> logged kind ys"
  by (auto simp add: logged_def)

lemma logged_Cons_Logger [simp]:
  "logged kind (Logger_Infof f a # xs) = logged kind xs"
  "logged kind (Logger_Errorf f a # xs) = logged kind xs"
  by (simp_all add: logged_def)

lemma logged_updateDeviceState: "\<not> logged kind (updateDeviceState e mac ap c)"
  by (simp add: logged_def updateDeviceState_def split: option.split)

lemma gateInvoked_updateDeviceState: "\<not> gateInvoked (updateDeviceState e mac ap c)"
  by (simp add: gateInvoked_def updateDeviceState_def split: option.split)

lemma actuatorCalls_updateDeviceState: "actuatorCalls (updateDeviceState e mac ap c) = 0"
  by (simp add: actuatorCalls_def updateDeviceState_def split: option.split)

lemma anyLog_updateDeviceState: "filter isAnyLogEvent (updateDeviceState e mac ap c) = []"
  by (simp add: updateDeviceState_def split: option.split)

lemma logged_connectedLog:
  "logged kind (connectedLog cfg e state toAP fromAP d) \<longleftrightarrow>
     LogActivity (Gate cfg) \<and> kind = ''connected''"
  by (auto simp add: connectedLog_def logged_def logged_logEvent)

lemma logged_connected_checkAndOpenGate:
  "\<not> logged ''connected'' (snd (checkAndOpenGate cfg gc e state d))"
proof (cases "time_Since (now_check e) (LastGateTrigger state) < cooldownDuration cfg")
  case True
  then show ?thesis
    by (simp add: checkAndOpenGate_skip logged_def logged_logEvent)
next
  case False
  show ?thesis
  proof (cases "fst (OpenGate (triggerURL gc) (http_get e))")
    case None
    show ?thesis
      by (simp add: checkAndOpenGate_opened [OF False None] logged_def logged_logEvent
          isLogEvent_OpenGate split: option.split)
  next
    case (Some err)
    show ?thesis
      by (simp add: checkAndOpenGate_failed [OF False Some] logged_def logged_logEvent
          isLogEvent_OpenGate)
  qed
qed

lemma gateInvoked_Cons: "gateInvoked (x # xs) \<longleftrightarrow> isGateCheck x \<or> gateInvoked xs"
  by (simp add: gateInvoked_def)

text \<open>
  C3, as the code has it. For every tracked device that was disconnected and that the
  snapshot shows at the gate AP: with an uptime strictly below 30 seconds the connect
  handler runs with direction arriving (its line is in the trace, and its \<open>connected\<close>
  event with direction arriving is written to the event log exactly when activity
  logging is on) and the gate trigger controller is invoked with direction arriving;
  with an uptime of 30 seconds or more no connect event is fired, nothing is written to
  the event log, the gate trigger controller is not invoked and the actuator is not
  called. In both cases \<open>CurrentAP\<close>, \<open>IsConnected\<close> and \<open>LastSeen\<close> are updated
  from the snapshot.
\<close>

theorem connect_at_gate_by_uptime:
  assumes "\<not> IsConnected state" and "AP_MAC client = GateAPMAC (UniFi cfg)"
  shows
   "(Uptime client < 30 \<longrightarrow>
       pollDevice cfg gc e (Some client) mac state =
         (fst (checkAndOpenGate cfg gc e state directionArriving)
            \<lparr>CurrentAP := AP_MAC client, IsConnected := True, LastSeen := now_seen e\<rparr>,
          Logger_Infof ''Device %s newly arrived at gate (uptime: %ds)''
            [S (Name state), I (Uptime client)] #
          connectedLog cfg e state (AP_MAC client) ''nowhere'' directionArriving @
          snd (checkAndOpenGate cfg gc e state directionArriving) @
          updateDeviceState e mac (AP_MAC client) True) \<and>
       Logger_Infof ''Device %s (%s) connected to AP %s''
         [S (Name state), S (MAC state), S (AP_MAC client)]
         \<in> set (snd (pollDevice cfg gc e (Some client) mac state)) \<and>
       (logged ''connected'' (snd (pollDevice cfg gc e (Some client) mac state)) \<longleftrightarrow>
          LogActivity (Gate cfg)) \<and>
       (LogActivity (Gate cfg) \<longrightarrow>
          DB_LogEvent
            \<lparr>DeviceMAC = MAC state, DeviceName = Name state, Event = ''connected'',
             Direction = ''arriving'', FromAP = ''nowhere'', ToAP = AP_MAC client,
             GateOpened = False, Message = ''Device connected to network''\<rparr>
          \<in> set (snd (pollDevice cfg gc e (Some client) mac state))) \<and>
       gateInvoked (snd (pollDevice cfg gc e (Some client) mac state))) \<and>
    (30 \<le> Uptime client \<longrightarrow>
       pollDevice cfg gc e (Some client) mac state =
         (state\<lparr>CurrentAP := AP_MAC client, IsConnected := True, LastSeen := now_seen e\<rparr>,
          Logger_Infof ''Device %s already at gate (uptime: %ds), not triggering''
            [S (Name state), I (Uptime client)] #
          updateDeviceState e mac (AP_MAC client) True) \<and>
       \<not> logged ''connected'' (snd (pollDevice cfg gc e (Some client) mac state)) \<and>
       filter isAnyLogEvent (snd (pollDevice cfg gc e (Some client) mac state)) = [] \<and>
       \<not> gateInvoked (snd (pollDevice cfg gc e (Some client) mac state)) \<and>
       actuatorCalls (snd (pollDevice cfg gc e (Some client) mac state)) = 0)"
proof (intro conjI impI)
  assume fresh: "Uptime client < 30"
  have gate: "AP_MAC client = GateAPMAC (UniFi cfg)" by (rule assms(2))
  show eq: "pollDevice cfg gc e (Some client) mac state =
         (fst (checkAndOpenGate cfg gc e state directionArriving)
            \<lparr>CurrentAP := AP_MAC client, IsConnected := True, LastSeen := now_seen e\<rparr>,
          Logger_Infof ''Device %s newly arrived at gate (uptime: %ds)''
            [S (Name state), I (Uptime client)] #
          connectedLog cfg e state (AP_MAC client) ''nowhere'' directionArriving @
          snd (checkAndOpenGate cfg gc e state directionArriving) @
          updateDeviceState e mac (AP_MAC client) True)"
    using assms fresh
    by (simp add: pollDevice_def Let_def handleDeviceConnected_gate [OF refl])
  show "Logger_Infof ''Device %s (%s) connected to AP %s''
         [S (Name state), S (MAC state), S (AP_MAC client)]
         \<in> set (snd (pollDevice cfg gc e (Some client) mac state))"
    by (simp add: eq connectedLog_def)
  show "logged ''connected'' (snd (pollDevice cfg gc e (Some client) mac state)) \<longleftrightarrow>
          LogActivity (Gate cfg)"
    by (simp add: eq logged_append logged_connectedLog logged_connected_checkAndOpenGate
        logged_updateDeviceState)
  show "DB_LogEvent
            \<lparr>DeviceMAC = MAC state, DeviceName = Name state, Event = ''connected'',
             Direction = ''arriving'', FromAP = ''nowhere'', ToAP = AP_MAC client,
             GateOpened = False, Message = ''Device connected to network''\<rparr>
          \<in> set (snd (pollDevice cfg gc e (Some client) mac state))"
    if "LogActivity (Gate cfg)"
    using that by (simp add: eq connectedLog_def logEvent_def directionArriving_def)
  show "gateInvoked (snd (pollDevice cfg gc e (Some client) mac state))"
    by (simp add: eq gateInvoked_Cons gateInvoked_append gateInvoked_checkAndOpenGate)
next
  assume parked: "30 \<le> Uptime client"
  show eq: "pollDevice cfg gc e (Some client) mac state =
         (state\<lparr>CurrentAP := AP_MAC client, IsConnected := True, LastSeen := now_seen e\<rparr>,
          Logger_Infof ''Device %s already at gate (uptime: %ds), not triggering''
            [S (Name state), I (Uptime client)] #
          updateDeviceState e mac (AP_MAC client) True)"
    using assms parked by (simp add: pollDevice_def Let_def)
  show "\<not> logged ''connected'' (snd (pollDevice cfg gc e (Some client) mac state))"
    by (simp add: eq logged_updateDeviceState)
  show "filter isAnyLogEvent (snd (pollDevice cfg gc e (Some client) mac state)) = []"
    by (simp add: eq anyLog_updateDeviceState)
  show "\<not> gateInvoked (snd (pollDevice cfg gc e (Some client) mac state))"
    by (simp add: eq gateInvoked_Cons gateInvoked_updateDeviceState)
  show "actuatorCalls (snd (pollDevice cfg gc e (Some client) mac state)) = 0"
    using actuatorCalls_updateDeviceState [of e mac "AP_MAC client" True]
    by (simp add: eq actuatorCalls_def)
qed

theorem connect_at_gate_by_uptime_witness:
  "\<not> IsConnected state_car \<and>
   AP_MAC client_fresh = GateAPMAC (UniFi cfg_logging) \<and>
   Uptime client_fresh < 30 \<and>
   gateInvoked
     (snd (pollDevice cfg_logging gc_shelly (env_at t0 (Get_response 200)) (Some client_fresh)
             ''AA:BB:CC:DD:EE:01'' state_car)) \<and>
   logged ''connected''
     (snd (pollDevice cfg_logging gc_shelly (env_at t0 (Get_response 200)) (Some client_fresh)
             ''AA:BB:CC:DD:EE:01'' state_car)) \<and>
   AP_MAC client_parked = GateAPMAC (UniFi cfg_logging) \<and>
   30 \<le> Uptime client_parked \<and>
   \<not> gateInvoked
     (snd (pollDevice cfg_logging gc_shelly (env_at t0 (Get_response 200)) (Some client_parked)
             ''AA:BB:CC:DD:EE:01'' state_car)) \<and>
   fst (pollDevice cfg_logging gc_shelly (env_at t0 (Get_response 200)) (Some client_parked)
          ''AA:BB:CC:DD:EE:01'' state_car) =
     state_car\<lparr>CurrentAP := ''GATE-MAC'', IsConnected := True, LastSeen := t0 + 300000000\<rparr>"
proof -
  have d: "\<not> IsConnected state_car"
    by (simp add: state_car_def newDeviceState_def)
  have f: "AP_MAC client_fresh = GateAPMAC (UniFi cfg_logging)"
    by (simp add: client_fresh_def cfg_logging_def)
  have p: "AP_MAC client_parked = GateAPMAC (UniFi cfg_logging)"
    by (simp add: client_parked_def cfg_logging_def)
  have uf: "Uptime client_fresh < 30" by (simp add: client_fresh_def)
  have up: "30 \<le> Uptime client_parked" by (simp add: client_parked_def)
  have ap: "AP_MAC client_parked = ''GATE-MAC''" by (simp add: client_parked_def)
  have seen: "now_seen (env_at t0 (Get_response 200)) = t0 + 300000000"
    by (simp add: env_at_def)
  from connect_at_gate_by_uptime
      [OF d f, of gc_shelly "env_at t0 (Get_response 200)" "''AA:BB:CC:DD:EE:01''"] uf
  have a1: "gateInvoked
     (snd (pollDevice cfg_logging gc_shelly (env_at t0 (Get_response 200)) (Some client_fresh)
             ''AA:BB:CC:DD:EE:01'' state_car))"
    and a2: "logged ''connected''
     (snd (pollDevice cfg_logging gc_shelly (env_at t0 (Get_response 200)) (Some client_fresh)
             ''AA:BB:CC:DD:EE:01'' state_car)) \<longleftrightarrow> LogActivity (Gate cfg_logging)"
    by blast+
  from connect_at_gate_by_uptime
      [OF d p, of gc_shelly "env_at t0 (Get_response 200)" "''AA:BB:CC:DD:EE:01''"] up
  have b1: "\<not> gateInvoked
     (snd (pollDevice cfg_logging gc_shelly (env_at t0 (Get_response 200)) (Some client_parked)
             ''AA:BB:CC:DD:EE:01'' state_car))"
    and b2: "pollDevice cfg_logging gc_shelly (env_at t0 (Get_response 200)) (Some client_parked)
          ''AA:BB:CC:DD:EE:01'' state_car =
         (state_car\<lparr>CurrentAP := AP_MAC client_parked, IsConnected := True,
            LastSeen := now_seen (env_at t0 (Get_response 200))\<rparr>,
          Logger_Infof ''Device %s already at gate (uptime: %ds), not triggering''
            [S (Name state_car), I (Uptime client_parked)] #
          updateDeviceState (env_at t0 (Get_response 200)) ''AA:BB:CC:DD:EE:01''
            (AP_MAC client_parked) True)"
    by blast+
  have b3: "fst (pollDevice cfg_logging gc_shelly (env_at t0 (Get_response 200)) (Some client_parked)
          ''AA:BB:CC:DD:EE:01'' state_car) =
     state_car\<lparr>CurrentAP := ''GATE-MAC'', IsConnected := True, LastSeen := t0 + 300000000\<rparr>"
    by (simp add: b2 ap seen)
  from a2 have a3: "logged ''connected''
     (snd (pollDevice cfg_logging gc_shelly (env_at t0 (Get_response 200)) (Some client_fresh)
             ''AA:BB:CC:DD:EE:01'' state_car))"
    by (simp add: LogActivity_cfg_logging)
  from d f uf a1 a3 p up b1 b3 show ?thesis by blast
qed

text \<open>
  C3 as stated fails without activity logging: the device arrives at the gate with an
  uptime of 10 seconds, the handler runs and the gate is opened, but no \<open>connected\<close>
  event is written to the event log.
\<close>

theorem connected_event_not_logged_counterexample:
  "\<not> IsConnected state_car \<and>
   AP_MAC client_fresh = GateAPMAC (UniFi cfg_quiet) \<and>
   Uptime client_fresh < 30 \<and>
   snd (pollDevice cfg_quiet gc_shelly (env_at t0 (Get_response 200)) (Some client_fresh)
          ''AA:BB:CC:DD:EE:01'' state_car) =
     [Logger_Infof ''Device %s newly arrived at gate (uptime: %ds)'' [S ''car'', I 10],
      Logger_Infof ''Device %s (%s) connected to AP %s''
        [S ''car'', S ''AA:BB:CC:DD:EE:01'', S ''GATE-MAC''],
      Logger_Infof ''Opening gate for %s (%s)'' [S ''car'', S ''arriving''],
      GateController_OpenGate,
      Logger_Infof ''Triggering gate open via: %s'' [S ''http://shelly/relay/0?turn=on''],
      HTTP_Get ''http://shelly/relay/0?turn=on'',
      Logger_Infof ''Gate opened successfully'' [],
      DB_UpdateLastGateTrigger ''AA:BB:CC:DD:EE:01'',
      DB_UpdateDeviceState ''AA:BB:CC:DD:EE:01'' ''GATE-MAC'' True] \<and>
   \<not> logged ''connected''
     (snd (pollDevice cfg_quiet gc_shelly (env_at t0 (Get_response 200)) (Some client_fresh)
             ''AA:BB:CC:DD:EE:01'' state_car))"
proof -
  have e200: "\<not> time_Since (now_check (env_at t0 (Get_response 200))) (LastGateTrigger state_car)
       < cooldownDuration cfg_quiet"
    by (simp add: cooldown_cfg_quiet never_triggered_eligible)
  have gate: "snd (checkAndOpenGate cfg_quiet gc_shelly (env_at t0 (Get_response 200)) state_car
                     directionArriving) =
     [Logger_Infof ''Opening gate for %s (%s)'' [S ''car'', S ''arriving''],
      GateController_OpenGate,
      Logger_Infof ''Triggering gate open via: %s'' [S ''http://shelly/relay/0?turn=on''],
      HTTP_Get ''http://shelly/relay/0?turn=on'',
      Logger_Infof ''Gate opened successfully'' [],
      DB_UpdateLastGateTrigger ''AA:BB:CC:DD:EE:01'']"
    unfolding checkAndOpenGate_opened [OF e200 OpenGate_200]
    by (simp add: OpenGate_def gc_shelly_def env_at_def logEvent_def LogActivity_cfg_quiet
        state_car_def newDeviceState_def directionArriving_def)
  have d: "\<not> IsConnected state_car"
    by (simp add: state_car_def newDeviceState_def)
  have u: "Uptime client_fresh < 30"
    by (simp add: client_fresh_def)
  have a: "AP_MAC client_fresh = GateAPMAC (UniFi cfg_quiet)"
    by (simp add: client_fresh_def cfg_quiet_def cfg_logging_def)
  have tr: "snd (pollDevice cfg_quiet gc_shelly (env_at t0 (Get_response 200)) (Some client_fresh)
          ''AA:BB:CC:DD:EE:01'' state_car) =
     Logger_Infof ''Device %s newly arrived at gate (uptime: %ds)''
       [S (Name state_car), I (Uptime client_fresh)] #
     connectedLog cfg_quiet (env_at t0 (Get_response 200)) state_car (GateAPMAC (UniFi cfg_quiet))
       ''nowhere'' directionArriving @
     snd (checkAndOpenGate cfg_quiet gc_shelly (env_at t0 (Get_response 200)) state_car
            directionArriving) @
     updateDeviceState (env_at t0 (Get_response 200)) ''AA:BB:CC:DD:EE:01''
       (GateAPMAC (UniFi cfg_quiet)) True"
    using d u a
    by (simp add: pollDevice_def Let_def handleDeviceConnected_gate [OF refl])
  have full: "snd (pollDevice cfg_quiet gc_shelly (env_at t0 (Get_response 200)) (Some client_fresh)
          ''AA:BB:CC:DD:EE:01'' state_car) =
     [Logger_Infof ''Device %s newly arrived at gate (uptime: %ds)'' [S ''car'', I 10],
      Logger_Infof ''Device %s (%s) connected to AP %s''
        [S ''car'', S ''AA:BB:CC:DD:EE:01'', S ''GATE-MAC''],
      Logger_Infof ''Opening gate for %s (%s)'' [S ''car'', S ''arriving''],
      GateController_OpenGate,
      Logger_Infof ''Triggering gate open via: %s'' [S ''http://shelly/relay/0?turn=on''],
      HTTP_Get ''http://shelly/relay/0?turn=on'',
      Logger_Infof ''Gate opened successfully'' [],
      DB_UpdateLastGateTrigger ''AA:BB:CC:DD:EE:01'',
      DB_UpdateDeviceState ''AA:BB:CC:DD:EE:01'' ''GATE-MAC'' True]"
    unfolding tr gate
    by (simp add: connectedLog_def logEvent_def LogActivity_cfg_quiet updateDeviceState_def
        env_at_def state_car_def newDeviceState_def client_fresh_def cfg_quiet_def
        cfg_logging_def)
  have none: "\<not> logged ''connected''
     (snd (pollDevice cfg_quiet gc_shelly (env_at t0 (Get_response 200)) (Some client_fresh)
             ''AA:BB:CC:DD:EE:01'' state_car))"
    unfolding full by (simp add: logged_def)
  from d a u full none show ?thesis by blast
qed

section \<open>Properties of two polls in a row\<close>

lemma pollDevice_present:
  "IsConnected (fst (pollDevice cfg gc e (Some client) mac state)) \<and>
   CurrentAP (fst (pollDevice cfg gc e (Some client) mac state)) = AP_MAC client"
  by (simp add: pollDevice_def Let_def split: prod.split)

lemma pollDevice_absent:
  "\<not> IsConnected (fst (pollDevice cfg gc e None mac state))"
  by (simp add: pollDevice_def)

lemma pollDevice_unchanged:
  assumes "IsConnected state" and "CurrentAP state = AP_MAC client"
  shows "pollDevice cfg gc e (Some client) mac state =
           (state\<lparr>LastSeen := now_seen e\<rparr>, updateDeviceState e mac (AP_MAC client) True)"
  using assms by (simp add: pollDevice_def Let_def)

lemma pollDevice_still_absent:
  assumes "\<not> IsConnected state"
  shows "pollDevice cfg gc e None mac state = (state, [])"
  using assms by (simp add: pollDevice_def)

lemma pollDevice_twice:
  "pollDevice cfg gc e2 found mac (fst (pollDevice cfg gc e1 found mac state)) =
     (case found of
        None \<Rightarrow> (fst (pollDevice cfg gc e1 found mac state), [])
      | Some client \<Rightarrow>
          (fst (pollDevice cfg gc e1 found mac state)\<lparr>LastSeen := now_seen e2\<rparr>,
           updateDeviceState e2 mac (AP_MAC client) True))"
proof (cases found)
  case None
  show ?thesis
    unfolding None by (simp add: pollDevice_still_absent [OF pollDevice_absent])
next
  case (Some client)
  have c: "IsConnected (fst (pollDevice cfg gc e1 (Some client) mac state))"
    and a: "CurrentAP (fst (pollDevice cfg gc e1 (Some client) mac state)) = AP_MAC client"
    using pollDevice_present [of cfg gc e1 client mac state] by simp_all
  show ?thesis
    unfolding Some by (simp add: pollDevice_unchanged [OF c a])
qed


text \<open>
  C9. For every registry and every snapshot, in the second of two polls over the same
  snapshot the trace of every tracked device holds nothing but the write of its state
  to the database when the device is in the snapshot, and is empty otherwise: no
  connect, disconnect or roam handler runs, nothing is written to the event log, the
  gate trigger controller is not invoked and the actuator is not called. The second poll
  changes nothing in the registry but \<open>LastSeen\<close> of the devices in the snapshot.
\<close>

theorem same_snapshot_twice:
  "pollTraces cfg gc es2 clients (pollDevices cfg gc es1 clients states) mac =
     (case states mac of
        None \<Rightarrow> []
      | Some state \<Rightarrow>
          (case currentlyConnected clients mac of
             None \<Rightarrow> []
           | Some client \<Rightarrow> updateDeviceState (es2 mac) mac (AP_MAC client) True)) \<and>
   pollDevices cfg gc es2 clients (pollDevices cfg gc es1 clients states) mac =
     map_option
       (\<lambda>state. case currentlyConnected clients mac of
                   None \<Rightarrow> state
                 | Some client \<Rightarrow> state\<lparr>LastSeen := now_seen (es2 mac)\<rparr>)
       (pollDevices cfg gc es1 clients states mac) \<and>
   \<not> gateInvoked (pollTraces cfg gc es2 clients (pollDevices cfg gc es1 clients states) mac) \<and>
   actuatorCalls (pollTraces cfg gc es2 clients (pollDevices cfg gc es1 clients states) mac) = 0 \<and>
   filter isAnyLogEvent
     (pollTraces cfg gc es2 clients (pollDevices cfg gc es1 clients states) mac) = []"
proof -
  have tr: "pollTraces cfg gc es2 clients (pollDevices cfg gc es1 clients states) mac =
     (case states mac of
        None \<Rightarrow> []
      | Some state \<Rightarrow>
          (case currentlyConnected clients mac of
             None \<Rightarrow> []
           | Some client \<Rightarrow> updateDeviceState (es2 mac) mac (AP_MAC client) True))"
    by (simp add: pollTraces_def pollDevices_def pollDevice_twice split: option.split)
  have st: "pollDevices cfg gc es2 clients (pollDevices cfg gc es1 clients states) mac =
     map_option
       (\<lambda>state. case currentlyConnected clients mac of
                   None \<Rightarrow> state
                 | Some client \<Rightarrow> state\<lparr>LastSeen := now_seen (es2 mac)\<rparr>)
       (pollDevices cfg gc es1 clients states mac)"
    by (cases "states mac")
      (simp_all add: pollDevices_def pollDevice_twice split: option.split)
  have g: "\<not> gateInvoked (pollTraces cfg gc es2 clients (pollDevices cfg gc es1 clients states) mac)"
    unfolding tr
    by (simp add: gateInvoked_updateDeviceState split: option.split) (simp add: gateInvoked_def)
  have a: "actuatorCalls (pollTraces cfg gc es2 clients (pollDevices cfg gc es1 clients states) mac) = 0"
    unfolding tr
    by (simp add: actuatorCalls_updateDeviceState split: option.split) (simp add: actuatorCalls_def)
  have l: "filter isAnyLogEvent
     (pollTraces cfg gc es2 clients (pollDevices cfg gc es1 clients states) mac) = []"
    unfolding tr
    by (simp add: anyLog_updateDeviceState split: option.split)
  from tr st g a l show ?thesis by blast
qed

theorem same_snapshot_twice_witness:
  "\<not> gateInvoked
      (pollTraces cfg_logging gc_shelly (\<lambda>mac. env_at (t0 + 30 * Second) (Get_response 200))
         [client_fresh]
         (pollDevices cfg_logging gc_shelly (\<lambda>mac. env_at t0 (Get_response 200))
            [client_fresh] registry_car)
         ''AA:BB:CC:DD:EE:01'') \<and>
   actuatorCalls
      (pollTraces cfg_logging gc_shelly (\<lambda>mac. env_at (t0 + 30 * Second) (Get_response 200))
         [client_fresh]
         (pollDevices cfg_logging gc_shelly (\<lambda>mac. env_at t0 (Get_response 200))
            [client_fresh] registry_car)
         ''AA:BB:CC:DD:EE:01'') = 0"
  using same_snapshot_twice
    [of cfg_logging gc_shelly "\<lambda>mac. env_at (t0 + 30 * Second) (Get_response 200)"
      "[client_fresh]" "\<lambda>mac. env_at t0 (Get_response 200)" registry_car
      "''AA:BB:CC:DD:EE:01''"]
  by blast

section \<open>Properties of the backoff\<close>

text \<open>
  A failed attempt counts one up and sets the backoff of the new count; a success sets
  both to zero. Up to the 34th failure in a row the backoff is the smaller of
  \<open>2 ^ (n - 1)\<close> seconds and 64 seconds.
\<close>

lemma uint_nat: "0 \<le> x \<Longrightarrow> x < 18446744073709551616 \<Longrightarrow> uint x = nat x"
  by (simp add: uint_def)

lemma nextBackoff_small:
  assumes "1 \<le> n" and "n \<le> 34"
  shows "nextBackoff n = min (2 ^ nat (n - 1) * Second) (64 * Second)"
proof -
  have k: "nat (n - 1) \<le> 33" using assms by simp
  have "(2::int) ^ nat (n - 1) \<le> 2 ^ 33"
    by (rule power_increasing [OF k]) simp
  then have le: "(2::int) ^ nat (n - 1) \<le> 8589934592" by simp
  have lo: "- 9223372036854775808 \<le> (2::int) ^ nat (n - 1)"
    by (rule order_trans [OF _ zero_le_power]) simp_all
  have hi: "(2::int) ^ nat (n - 1) \<le> 9223372036854775807"
    using le by simp
  have lo': "- 9223372036854775808 \<le> (2::int) ^ nat (n - 1) * Second"
    by (rule order_trans [of _ 0]) (simp_all add: Second_def)
  have hi': "(2::int) ^ nat (n - 1) * Second \<le> 9223372036854775807"
    using le by (simp add: Second_def)
  have i: "int64 (n - 1) = n - 1"
    using assms by (intro int64_exact) simp_all
  have u: "uint (n - 1) = nat (n - 1)"
    using assms by (intro uint_nat) simp_all
  have "int64 (2 ^ nat (n - 1)) = 2 ^ nat (n - 1)"
    by (rule int64_exact [OF lo hi])
  then have s: "shiftLeft 1 (nat (n - 1)) = 2 ^ nat (n - 1)"
    using k by (simp add: shiftLeft_def)
  have m: "int64 (2 ^ nat (n - 1) * Second) = 2 ^ nat (n - 1) * Second"
    by (rule int64_exact [OF lo' hi'])
  have c: "int64 (64 * Second) = 64 * Second"
    by (simp add: Second_def int64_def)
  show ?thesis
    by (simp add: nextBackoff_def Let_def i u s m c min_def)
qed

lemma nextBackoff_35: "nextBackoff 35 = - 1266874889709551616"
  by (simp add: nextBackoff_def shiftLeft_def uint_def int64_def Second_def)

lemma reauthenticate_failure:
  assumes "\<not> time_Since (now_backoff e) (lastAuthAttempt app) < authRetryBackoff app"
    and "login e = Some err"
  shows "fst (reauthenticateWithBackoff app e) = Some (LoginFailed err) \<and>
         fst (snd (reauthenticateWithBackoff app e)) =
           app\<lparr>lastAuthAttempt := now_attempt e,
               authRetryCount := int64 (authRetryCount app + 1),
               authRetryBackoff := nextBackoff (int64 (authRetryCount app + 1))\<rparr> \<and>
         UniFiClient_Login \<in> set (snd (snd (reauthenticateWithBackoff app e)))"
  using assms by (simp add: reauthenticateWithBackoff_def Let_def)

lemma reauthenticate_success:
  assumes "\<not> time_Since (now_backoff e) (lastAuthAttempt app) < authRetryBackoff app"
    and "login e = None"
  shows "fst (reauthenticateWithBackoff app e) = None \<and>
         fst (snd (reauthenticateWithBackoff app e)) =
           app\<lparr>lastAuthAttempt := now_attempt e, authRetryCount := 0, authRetryBackoff := 0\<rparr>"
  using assms by (simp add: reauthenticateWithBackoff_def Let_def)

text \<open>
  C5. Logins that fail, 100 seconds apart, from a state that has never tried: the first
  three give backoffs of 1, 2 and 4 seconds, and after the 34th the retry count is 34
  and the backoff is 64 seconds. With 35 failures all 35 logins are attempted and the
  retry count is 35, but the product \<^verbatim>\<open>(1 << 34) * time.Second\<close> has wrapped around
  in \<^verbatim>\<open>int64\<close>: the backoff is negative, not 64 seconds.
\<close>

theorem backoff_after_35_failures:
  "authRetryBackoff (fst (reauthenticateAll app_fresh (failing_logins 1))) = 1 * Second \<and>
   authRetryBackoff (fst (reauthenticateAll app_fresh (failing_logins 2))) = 2 * Second \<and>
   authRetryBackoff (fst (reauthenticateAll app_fresh (failing_logins 3))) = 4 * Second \<and>
   authRetryCount (fst (reauthenticateAll app_fresh (failing_logins 34))) = 34 \<and>
   authRetryBackoff (fst (reauthenticateAll app_fresh (failing_logins 34))) = 64 * Second \<and>
   logins (snd (reauthenticateAll app_fresh (failing_logins 35))) = 35 \<and>
   authRetryCount (fst (reauthenticateAll app_fresh (failing_logins 35))) = 35 \<and>
   authRetryBackoff (fst (reauthenticateAll app_fresh (failing_logins 35))) =
     - 1266874889709551616"
  by code_simp

section \<open>Properties of the registry keys\<close>

lemma ToUpper_car: "ToUpper ''aa:bb:cc:dd:ee:01'' = ''AA:BB:CC:DD:EE:01''"
  by code_simp

lemma app_started_eq:
  "app_started =
     app_stopped\<lparr>isMonitoring := True, deviceStates := registry_car,
                 GateController := gc_shelly\<rparr>"
  by (simp add: app_started_def StartMonitoring_def app_stopped_def loadDeviceStates_def
      cfg_logging_def loadDevice_def db_fresh_def ToUpper_car registry_car_def state_car_def
      newDeviceState_def gc_shelly_def Let_def)

text \<open>
  C7. A device configured as \<open>aa:bb:cc:dd:ee:01\<close> is seeded under the key
  \<open>AA:BB:CC:DD:EE:01\<close>. The handlers that update and remove a device use the
  identifier of the request as it is: removing \<open>aa:bb:cc:dd:ee:01\<close> succeeds and
  empties the configuration, but leaves the entry in the registry; disabling it leaves
  the entry as well; and enabling it again adds a second entry under the key
  \<open>aa:bb:cc:dd:ee:01\<close>, which is not normalized and under which a poll finds no
  client, since the clients of a snapshot are looked up by their normalized address.
\<close>

theorem raw_key_in_update_and_delete:
  "deviceStates app_started ''AA:BB:CC:DD:EE:01'' = Some state_car \<and>
   fst (DeleteDeviceHandler app_started ''aa:bb:cc:dd:ee:01'' None) = 200 \<and>
   Devices (Config (snd (DeleteDeviceHandler app_started ''aa:bb:cc:dd:ee:01'' None))) = [] \<and>
   deviceStates (snd (DeleteDeviceHandler app_started ''aa:bb:cc:dd:ee:01'' None))
     ''AA:BB:CC:DD:EE:01'' = Some state_car \<and>
   fst (UpdateDeviceHandler app_started ''aa:bb:cc:dd:ee:01'' (Some (''car'', False)) None) = 200 \<and>
   deviceStates
     (snd (UpdateDeviceHandler app_started ''aa:bb:cc:dd:ee:01'' (Some (''car'', False)) None))
     ''AA:BB:CC:DD:EE:01'' = Some state_car \<and>
   deviceStates
     (snd (UpdateDeviceHandler app_started ''aa:bb:cc:dd:ee:01'' (Some (''car'', True)) None))
     ''aa:bb:cc:dd:ee:01'' = Some (newDeviceState ''aa:bb:cc:dd:ee:01'' ''car'') \<and>
   clMAC client_fresh = ''aa:bb:cc:dd:ee:01'' \<and>
   currentlyConnected [client_fresh] ''aa:bb:cc:dd:ee:01'' = None \<and>
   currentlyConnected [client_fresh] ''AA:BB:CC:DD:EE:01'' = Some client_fresh"
  by (simp add: app_started_eq app_stopped_def DeleteDeviceHandler_def UpdateDeviceHandler_def
      RemoveDevice_def UpdateDevice_def cfg_logging_def registry_car_def Let_def
      currentlyConnected_def ToUpper_car client_fresh_def)

section \<open>Properties of the registry over a run\<close>

lemma registry_ok_empty: "registry_ok Map.empty"
  by (simp add: registry_ok_def)

lemma registry_ok_upd: "registry_ok m \<Longrightarrow> consistent s \<Longrightarrow> registry_ok (m(k \<mapsto> s))"
  by (simp add: registry_ok_def)

lemma registry_ok_del: "registry_ok m \<Longrightarrow> registry_ok (m(k := None))"
  by (simp add: registry_ok_def)

lemma consistent_new: "consistent (newDeviceState mac name)"
  by (simp add: consistent_def newDeviceState_def)

lemma consistent_rename: "consistent s \<Longrightarrow> consistent (s\<lparr>Name := n\<rparr>)"
  by (simp add: consistent_def)

lemma currentlyConnected_mem_aux:
  "fold (\<lambda>client m. m(ToUpper (clMAC client) \<mapsto> client)) clients m0 mac = Some c \<Longrightarrow>
   c \<in> set clients \<or> m0 mac = Some c"
proof (induction clients arbitrary: m0)
  case Nil
  then show ?case by simp
next
  case (Cons a clients)
  from Cons.prems
  have "fold (\<lambda>client m. m(ToUpper (clMAC client) \<mapsto> client)) clients
          (m0(ToUpper (clMAC a) \<mapsto> a)) mac = Some c"
    by (simp only: fold.simps comp_apply)
  from Cons.IH [OF this] show ?case
    by (auto split: if_splits)
qed

lemma currentlyConnected_mem: "currentlyConnected clients mac = Some c \<Longrightarrow> c \<in> set clients"
  using currentlyConnected_mem_aux [of clients Map.empty mac c]
  by (simp add: currentlyConnected_def)

lemma pollDevice_consistent:
  assumes "consistent state" and "\<And>client. found = Some client \<Longrightarrow> AP_MAC client \<noteq> []"
  shows "consistent (fst (pollDevice cfg gc e found mac state))"
proof (cases found)
  case None
  with assms(1) show ?thesis
    by (simp add: pollDevice_def consistent_def)
next
  case (Some client)
  with assms(2) have "AP_MAC client \<noteq> []" by simp
  with pollDevice_present [of cfg gc e client mac state] show ?thesis
    unfolding Some by (simp add: consistent_def)
qed

lemma pollDevices_ok:
  assumes "registry_ok states" and "list_all (\<lambda>client. AP_MAC client \<noteq> []) clients"
  shows "registry_ok (pollDevices cfg gc es clients states)"
  unfolding registry_ok_def
proof (intro allI impI)
  fix mac state
  assume "pollDevices cfg gc es clients states mac = Some state"
  then obtain s0 where s0: "states mac = Some s0"
    and st: "state = fst (pollDevice cfg gc (es mac) (currentlyConnected clients mac) mac s0)"
    by (auto simp add: pollDevices_def)
  from assms(1) s0 have c0: "consistent s0" by (simp add: registry_ok_def)
  have "AP_MAC client \<noteq> []" if "currentlyConnected clients mac = Some client" for client
    using currentlyConnected_mem [OF that] assms(2) by (simp add: list_all_iff)
  with c0 show "consistent state"
    unfolding st by (intro pollDevice_consistent) simp_all
qed

lemma reauth_deviceStates:
  "deviceStates (fst (snd (reauthenticateWithBackoff app e))) = deviceStates app"
  by (simp add: reauthenticateWithBackoff_def Let_def split: option.split)

lemma pollUniFi_ok:
  assumes "registry_ok (deviceStates app)" and "snapshot_ok (fetch pe)"
    and "snapshot_ok (fetch_again pe)"
  shows "registry_ok (deviceStates (fst (pollUniFi app pe)))"
proof -
  have d: "registry_ok (deviceStates (fst (diffDevices a pe clients before)))"
    if "registry_ok (deviceStates a)" and "list_all (\<lambda>client. AP_MAC client \<noteq> []) clients"
    for a clients before
    using that by (simp add: diffDevices_def pollDevices_ok)
  have r: "registry_ok (deviceStates (fst (snd (reauthenticateWithBackoff app (auth pe)))))"
    using assms(1) by (simp add: reauth_deviceStates)
  show ?thesis
    using assms r d
    by (auto simp add: pollUniFi_def snapshot_ok_def Let_def split: sum.split prod.split option.split)
qed

lemma loadDevice_ok:
  assumes "stored_ok db" and "registry_ok states"
  shows "registry_ok (loadDevice db device states)"
proof -
  have "case GetDeviceState db (cfgMAC device) of
              Inl err \<Rightarrow> True
            | Inr (currentAP, lastSeen, isConnected) \<Rightarrow> (currentAP = [] \<longleftrightarrow> \<not> isConnected)"
    using assms(1) by (simp add: stored_ok_def)
  with assms(2) show ?thesis
    by (auto simp add: loadDevice_def Let_def consistent_def split: sum.split prod.split
        intro!: registry_ok_upd)
qed

lemma fold_loadDevice_ok:
  "stored_ok db \<Longrightarrow> registry_ok states \<Longrightarrow> registry_ok (fold (loadDevice db) ds states)"
  by (induction ds arbitrary: states) (simp_all add: loadDevice_ok)

lemma StartMonitoring_ok:
  assumes "stored_ok db" and "isMonitoring app \<Longrightarrow> registry_ok (deviceStates app)"
  shows "registry_ok (deviceStates (StartMonitoring app db))"
  using assms
  by (simp add: StartMonitoring_def loadDeviceStates_def fold_loadDevice_ok registry_ok_empty)

lemma AddDeviceHandler_ok:
  "registry_ok (deviceStates app) \<Longrightarrow> registry_ok (deviceStates (snd (AddDeviceHandler app req saved)))"
  by (auto simp add: AddDeviceHandler_def Let_def consistent_new split: option.split prod.split
      intro!: registry_ok_upd)

lemma UpdateDeviceHandler_ok:
  "registry_ok (deviceStates app) \<Longrightarrow>
   registry_ok (deviceStates (snd (UpdateDeviceHandler app mac req saved)))"
proof -
  assume ok: "registry_ok (deviceStates app)"
  have known: "consistent state" if "deviceStates app mac = Some state" for state
    using ok that by (simp add: registry_ok_def)
  show ?thesis
    using ok
    by (auto simp add: UpdateDeviceHandler_def Let_def consistent_new consistent_rename known
        split: option.split prod.split intro!: registry_ok_upd registry_ok_del)
qed

lemma DeleteDeviceHandler_ok:
  "registry_ok (deviceStates app) \<Longrightarrow>
   registry_ok (deviceStates (snd (DeleteDeviceHandler app mac saved)))"
  by (auto simp add: DeleteDeviceHandler_def Let_def split: option.split intro!: registry_ok_del)

lemma apply_operation_ok:
  assumes "registry_ok (deviceStates app)" and "operation_ok op"
  shows "registry_ok (deviceStates (apply_operation app op))"
proof (cases op)
  case (Poll pe)
  with assms show ?thesis by (simp add: pollUniFi_ok)
next
  case (Add req saved)
  with assms show ?thesis by (simp add: AddDeviceHandler_ok)
next
  case (Update mac req saved)
  with assms show ?thesis by (simp add: UpdateDeviceHandler_ok)
next
  case (Delete mac saved)
  with assms show ?thesis by (simp add: DeleteDeviceHandler_ok)
next
  case Stop
  with assms show ?thesis by (simp add: StopMonitoring_def)
next
  case (Start db)
  with assms show ?thesis by (simp add: StartMonitoring_ok)
qed

lemma run_ok:
  "registry_ok (deviceStates app) \<Longrightarrow> list_all operation_ok ops \<Longrightarrow>
   registry_ok (deviceStates (run app ops))"
  unfolding run_def
  by (induction ops arbitrary: app) (simp_all add: apply_operation_ok)

text \<open>
  C8, as the code has it. Start monitoring from a stopped application, with stored states
  in which \<open>currentAP\<close> is empty exactly when \<open>isConnected\<close> is false, and apply
  any sequence of poll cycles, device operations, stops and starts in which every
  fetched snapshot names an access point for every client and every later start reads
  stored states with the same property. Then in every device state of the registry
  \<open>CurrentAP\<close> is empty if and only if \<open>IsConnected\<close> is false.
\<close>

theorem currentAP_empty_iff_disconnected:
  assumes "\<not> isMonitoring app" and "stored_ok db" and "list_all operation_ok ops"
    and "deviceStates (run (StartMonitoring app db) ops) mac = Some state"
  shows "CurrentAP state = [] \<longleftrightarrow> \<not> IsConnected state"
proof -
  have "registry_ok (deviceStates (StartMonitoring app db))"
    by (rule StartMonitoring_ok [OF assms(2)]) (simp add: assms(1))
  then have "registry_ok (deviceStates (run (StartMonitoring app db) ops))"
    using assms(3) by (rule run_ok)
  with assms(4) show ?thesis
    by (simp add: registry_ok_def consistent_def)
qed

lemma stored_ok_db_fresh: "stored_ok db_fresh"
  by (simp add: stored_ok_def db_fresh_def)

lemma not_monitoring_app_stopped: "\<not> isMonitoring app_stopped"
  by (simp add: app_stopped_def)

lemma currentlyConnected_one:
  "clMAC client = ''aa:bb:cc:dd:ee:01'' \<Longrightarrow>
   currentlyConnected [client] ''AA:BB:CC:DD:EE:01'' = Some client"
  by (simp add: currentlyConnected_def ToUpper_car)

lemma polled_once:
  assumes "clMAC client = ''aa:bb:cc:dd:ee:01''"
  shows "deviceStates (run (StartMonitoring app_stopped db_fresh) [Poll (poll_of [client])])
           ''AA:BB:CC:DD:EE:01'' =
         Some (fst (pollDevice cfg_logging gc_shelly (env_at t0 (Get_response 200)) (Some client)
                      ''AA:BB:CC:DD:EE:01'' state_car))"
proof -
  have "UniFiClient app_started" and "fetch (poll_of [client]) = Inr [client]"
    and "Config app_started = cfg_logging" and "GateController app_started = gc_shelly"
    and "deviceStates app_started = registry_car"
    and "devices (poll_of [client]) = (\<lambda>mac. env_at t0 (Get_response 200))"
    by (simp_all add: app_started_eq app_stopped_def poll_of_def)
  then show ?thesis
    unfolding app_started_def [symmetric]
    by (simp add: run_def pollUniFi_def diffDevices_def pollDevices_def registry_car_def
        currentlyConnected_one [OF assms])
qed

theorem currentAP_empty_iff_disconnected_witness:
  "\<not> isMonitoring app_stopped \<and> stored_ok db_fresh \<and>
   list_all operation_ok [Poll (poll_of [client_fresh])] \<and>
   deviceStates (run (StartMonitoring app_stopped db_fresh) [Poll (poll_of [client_fresh])])
     ''AA:BB:CC:DD:EE:01'' =
   Some (fst (pollDevice cfg_logging gc_shelly (env_at t0 (Get_response 200)) (Some client_fresh)
                ''AA:BB:CC:DD:EE:01'' state_car)) \<and>
   IsConnected
     (fst (pollDevice cfg_logging gc_shelly (env_at t0 (Get_response 200)) (Some client_fresh)
             ''AA:BB:CC:DD:EE:01'' state_car)) \<and>
   CurrentAP
     (fst (pollDevice cfg_logging gc_shelly (env_at t0 (Get_response 200)) (Some client_fresh)
             ''AA:BB:CC:DD:EE:01'' state_car)) \<noteq> []"
proof -
  have ops: "list_all operation_ok [Poll (poll_of [client_fresh])]"
    by (simp add: poll_of_def snapshot_ok_def client_fresh_def)
  have m: "clMAC client_fresh = ''aa:bb:cc:dd:ee:01''"
    by (simp add: client_fresh_def)
  have c: "IsConnected
     (fst (pollDevice cfg_logging gc_shelly (env_at t0 (Get_response 200)) (Some client_fresh)
             ''AA:BB:CC:DD:EE:01'' state_car))"
    using pollDevice_present by blast
  from currentAP_empty_iff_disconnected
    [OF not_monitoring_app_stopped stored_ok_db_fresh ops polled_once [OF m]] c
  have "CurrentAP
     (fst (pollDevice cfg_logging gc_shelly (env_at t0 (Get_response 200)) (Some client_fresh)
             ''AA:BB:CC:DD:EE:01'' state_car)) \<noteq> []"
    by simp
  with not_monitoring_app_stopped stored_ok_db_fresh ops polled_once [OF m] c
  show ?thesis by blast
qed

text \<open>
  C8 as stated fails on a snapshot that reports a tracked client without an access point:
  after the poll the device is connected and its \<open>CurrentAP\<close> is empty.
\<close>

theorem connected_without_ap_counterexample:
  "\<not> isMonitoring app_stopped \<and> stored_ok db_fresh \<and>
   map_option CurrentAP
     (deviceStates (run (StartMonitoring app_stopped db_fresh) [Poll (poll_of [client_no_ap])])
        ''AA:BB:CC:DD:EE:01'') = Some [] \<and>
   map_option IsConnected
     (deviceStates (run (StartMonitoring app_stopped db_fresh) [Poll (poll_of [client_no_ap])])
        ''AA:BB:CC:DD:EE:01'') = Some True"
proof -
  have m: "clMAC client_no_ap = ''aa:bb:cc:dd:ee:01''"
    by (simp add: client_no_ap_def)
  have a: "AP_MAC client_no_ap = []"
    by (simp add: client_no_ap_def)
  from pollDevice_present
    [of cfg_logging gc_shelly "env_at t0 (Get_response 200)" client_no_ap
      "''AA:BB:CC:DD:EE:01''" state_car]
  show ?thesis
    by (simp add: polled_once [OF m] a not_monitoring_app_stopped stored_ok_db_fresh)
qed

section \<open>The cooldown between two events\<close>




lemma StopMonitoring_started: "StopMonitoring app_started = app_started\<lparr>isMonitoring := False\<rparr>"
  by (simp add: StopMonitoring_def app_started_eq)







end
